theory Spec2Isabelle
  imports Main
begin

section \<open>Python values used by the application\<close>

text \<open>
  Exceptions are values. \<open>ValueError\<close> and \<open>Exception\<close> are the two classes the
  application raises itself, \<open>HTTPException\<close> is what the two POST routes answer with,
  and \<open>LibraryError\<close> stands for anything raised inside a library call (a document
  loader, the HTTP transport, the retrieval chain); its string is what \<open>str(e)\<close> gives.
  All of them are caught by \<open>except Exception\<close>.
\<close>

datatype exn =
    ValueError string
  | Exception string
  | HTTPException int string
  | LibraryError string

text \<open>\<open>str(n)\<close> of an integer, as the f-strings of the source print it.\<close>

definition digit_char :: "nat \<Rightarrow> char" where
  "digit_char d = ''0123456789'' ! d"

fun str_nat :: "nat \<Rightarrow> string" where
  "str_nat n = (if n < 10 then [digit_char n] else str_nat (n div 10) @ [digit_char (n mod 10)])"

declare str_nat.simps [simp del]

definition str_int :: "int \<Rightarrow> string" where
  "str_int i = (if i < 0 then CHR ''-'' # str_nat (nat (- i)) else str_nat (nat i))"

text \<open>\<open>str(e)\<close> of an exception.\<close>

fun str_exn :: "exn \<Rightarrow> string" where
  "str_exn (ValueError m) = m"
| "str_exn (Exception m) = m"
| "str_exn (HTTPException c d) = str_int c @ '': '' @ d"
| "str_exn (LibraryError m) = m"

definition quote :: string where
  "quote = [CHR 0x27]"

text \<open>
  A metadata dictionary keeps insertion order; \<open>d[k] = v\<close> replaces the value of a key
  that is there and appends a new key otherwise.
\<close>

datatype meta_value = MStr string | MInt int

fun dict_set :: "string \<Rightarrow> 'v \<Rightarrow> (string \<times> 'v) list \<Rightarrow> (string \<times> 'v) list" where
  "dict_set k v [] = [(k, v)]"
| "dict_set k v ((k', v') # d) = (if k' = k then (k, v) # d else (k', v') # dict_set k v d)"

definition dict_get :: "(string \<times> 'v) list \<Rightarrow> string \<Rightarrow> 'v option" where
  "dict_get d k = map_of d k"

record document =
  page_content :: string
  metadata :: "(string \<times> meta_value) list"

section \<open>The world outside the process\<close>

text \<open>
  A directory entry is a file name together with what \<open>loader.load()\<close> does on that file:
  it returns the file's records or raises. A file is read by one loader only (the one of
  its extension), so one outcome per file is enough.
\<close>

record dir_entry =
  file_name :: string
  loader_load :: "exn + document list"

text \<open>The request \<open>requests.post\<close> sends and the response it gets.\<close>

record wire_message =
  role :: string
  content :: string

datatype json =
    JNull
  | JBool bool
  | JNum int
  | JStr string
  | JArr "json list"
  | JObj "(string \<times> json) list"

record http_request =
  url :: string
  headers :: "(string \<times> string) list"
  json_model :: string
  json_messages :: "wire_message list"
  json_temperature :: "int \<times> int"
  json_stop :: "string list option"
  timeout :: nat

record http_response =
  status_code :: int
  resp_text :: string
  json_body :: "json option"

text \<open>
  The state the code reads and writes: the document directories (\<open>None\<close>: the path does
  not exist), the persisted vector stores by directory (\<open>None\<close>: the path does not
  exist), the directories on which this process holds a Chroma client, what was printed,
  and the HTTP requests sent so far.
  Paths are strings in the form \<open>pathlib\<close> prints them; document directories and vector
  store directories are kept apart.
\<close>

record world =
  doc_dirs :: "string \<rightharpoonup> dir_entry list"
  stores :: "string \<rightharpoonup> document list"
  open_clients :: "string set"
  stdout :: "string list"
  http_log :: "http_request list"

definition print :: "string \<Rightarrow> world \<Rightarrow> world" where
  "print line w = w\<lparr>stdout := stdout w @ [line]\<rparr>"

section \<open>config.py\<close>

text \<open>
  \<open>ROOT_DIR\<close> (where the package is installed) and \<open>GROQ_API_KEY\<close> (\<open>os.getenv\<close>:
  \<open>None\<close> or a string) come from the environment.
\<close>

record env =
  ROOT_DIR :: string
  GROQ_API_KEY :: "string option"

definition GROQ_MODEL :: string where
  "GROQ_MODEL = ''llama-3.3-70b-versatile''"

definition EMBEDDING_MODEL :: string where
  "EMBEDDING_MODEL = ''sentence-transformers/all-MiniLM-L6-v2''"

text \<open>\<open>os.path.join\<close> of a directory and a relative name.\<close>

definition path_join :: "string \<Rightarrow> string \<Rightarrow> string" where
  "path_join a b =
     (if a = [] then b else if last a = CHR ''/'' then a @ b else a @ ''/'' @ b)"

definition DOCUMENT_DIRECTORY :: "env \<Rightarrow> string" where
  "DOCUMENT_DIRECTORY e = path_join (ROOT_DIR e) ''documents''"

definition VECTOR_STORE_DIRECTORY :: "env \<Rightarrow> string" where
  "VECTOR_STORE_DIRECTORY e = path_join (ROOT_DIR e) ''vector_store''"

definition CHUNK_SIZE :: nat where
  "CHUNK_SIZE = 1000"

definition CHUNK_OVERLAP :: nat where
  "CHUNK_OVERLAP = 200"

definition RETRIEVER_K :: nat where
  "RETRIEVER_K = 3"

section \<open>loader.py: load_documents\<close>

text \<open>
  \<open>doc_path.glob("*.pdf")\<close>: the entries of the directory whose name ends with the
  extension, in the order the directory lists them.
\<close>

definition ends_with :: "string \<Rightarrow> string \<Rightarrow> bool" where
  "ends_with ext nm = (length ext \<le> length nm \<and> drop (length nm - length ext) nm = ext)"

definition glob :: "string \<Rightarrow> dir_entry list \<Rightarrow> dir_entry list" where
  "glob ext entries = filter (\<lambda>f. ends_with ext (file_name f)) entries"

text \<open>The two metadata assignments of the inner loop.\<close>

definition add_metadata :: "string \<Rightarrow> string \<Rightarrow> document \<Rightarrow> document" where
  "add_metadata nm ty doc =
     doc\<lparr>metadata := dict_set ''type'' (MStr ty) (dict_set ''source'' (MStr nm) (metadata doc))\<rparr>"

text \<open>
  The body of the \<open>try\<close> for one file: it prints, loads, stamps and extends
  \<open>all_documents\<close>. It gives back the exception, if one was raised, with the state at
  that point.
\<close>

definition load_try :: "string \<Rightarrow> dir_entry \<Rightarrow> document list \<times> string list
    \<Rightarrow> exn option \<times> document list \<times> string list" where
  "load_try ty f st =
     (case st of (all_documents, out) \<Rightarrow>
        let out1 = out @ [''Loading: '' @ file_name f] in
        (case loader_load f of
           Inl e \<Rightarrow> (Some e, all_documents, out1)
         | Inr documents \<Rightarrow>
             (None, all_documents @ map (add_metadata (file_name f) ty) documents, out1)))"

text \<open>The \<open>for\<close> loop over the files of one extension, with its \<open>except Exception\<close>.\<close>

fun load_files :: "string \<Rightarrow> dir_entry list \<Rightarrow> document list \<times> string list
    \<Rightarrow> document list \<times> string list" where
  "load_files ty [] st = st"
| "load_files ty (f # fs) st =
     (case load_try ty f st of
        (None, all_documents, out) \<Rightarrow> load_files ty fs (all_documents, out)
      | (Some e, all_documents, out) \<Rightarrow>
          load_files ty fs
            (all_documents, out @ [''Error loading '' @ file_name f @ '': '' @ str_exn e]))"

definition load_documents :: "string \<Rightarrow> world \<Rightarrow> document list \<times> world" where
  "load_documents doc_directory w =
     (case doc_dirs w doc_directory of
        None \<Rightarrow>
          ([], print (''Created document directory at: '' @ doc_directory)
                 (w\<lparr>doc_dirs := (doc_dirs w)(doc_directory \<mapsto> [])\<rparr>))
      | Some entries \<Rightarrow>
          let pdf_files = glob ''.pdf'' entries;
              st1 = (if pdf_files \<noteq> []
                     then load_files ''pdf'' pdf_files
                            ([], stdout w @ [''Found '' @ str_nat (length pdf_files) @ '' PDF file(s).''])
                     else ([], stdout w));
              txt_files = glob ''.txt'' entries;
              st2 = (if txt_files \<noteq> []
                     then load_files ''txt'' txt_files
                            (fst st1, snd st1 @ [''Found '' @ str_nat (length txt_files) @ '' TXT file(s).''])
                     else st1);
              all_documents = fst st2;
              out = snd st2 @
                    [if all_documents = []
                     then ''No documents found in '' @ quote @ doc_directory @ quote @ ''.''
                     else ''Successfully loaded '' @ str_nat (length all_documents) @ '' chunks/pages.'']
          in (all_documents, w\<lparr>stdout := out\<rparr>))"

section \<open>loader.py: split_documents\<close>

text \<open>
  \<open>RecursiveCharacterTextSplitter\<close> is a library class. How it cuts one text is the
  parameter \<open>split_text\<close> (given the chunk size and the overlap); its
  \<open>split_documents\<close> walks the documents in order and gives every piece the metadata of
  the document it was cut from.
\<close>

type_synonym splitter = "nat \<Rightarrow> nat \<Rightarrow> string \<Rightarrow> string list"

definition split_documents :: "splitter \<Rightarrow> document list \<Rightarrow> nat \<Rightarrow> nat \<Rightarrow> world
    \<Rightarrow> document list \<times> world" where
  "split_documents split_text documents chunk_size chunk_overlap w =
     (let chunks = concat (map (\<lambda>doc. map (\<lambda>t. doc\<lparr>page_content := t\<rparr>)
                                      (split_text chunk_size chunk_overlap (page_content doc)))
                               documents)
      in (chunks, print (''Split documents into '' @ str_nat (length chunks) @ '' chunks.'') w))"

section \<open>loader.py: create_vector_store\<close>

text \<open>
  A vector store object: the directory it persists to, the embedding model it was given
  and the entries of its collection, in insertion order.
\<close>

record vector_store =
  persist_directory :: string
  embedding_function :: string
  collection :: "document list"

definition path_exists :: "world \<Rightarrow> string \<Rightarrow> bool" where
  "path_exists w p = (stores w p \<noteq> None)"

definition rmtree :: "string \<Rightarrow> world \<Rightarrow> world" where
  "rmtree p w = w\<lparr>stores := (stores w)(p := None)\<rparr>"

text \<open>
  The Chroma library keeps one client per directory for the life of the process, and
  \<open>shutil.rmtree\<close> removes the files under a client without telling it. A client whose
  directory is gone is stale: it can no longer write.

  \<open>Chroma(persist_directory=..., embedding_function=...)\<close> opens the collection persisted
  in the directory (an empty one when there is none yet); the source calls it on a
  directory that exists only.
  \<open>Chroma.from_documents\<close> opens the collection and adds the documents; with a stale
  client on the directory it raises (SQLite: attempt to write a readonly database) and
  persists nothing.
\<close>

definition stale_client :: "world \<Rightarrow> string \<Rightarrow> bool" where
  "stale_client w pd = (pd \<in> open_clients w \<and> stores w pd = None)"

definition Chroma :: "string \<Rightarrow> string \<Rightarrow> world \<Rightarrow> vector_store \<times> world" where
  "Chroma pd emb w =
     (let es = (case stores w pd of None \<Rightarrow> [] | Some es \<Rightarrow> es)
      in (\<lparr>persist_directory = pd, embedding_function = emb, collection = es\<rparr>,
          w\<lparr>stores := (stores w)(pd \<mapsto> es), open_clients := insert pd (open_clients w)\<rparr>))"

definition Chroma_from_documents :: "document list \<Rightarrow> string \<Rightarrow> string \<Rightarrow> world
    \<Rightarrow> (exn + vector_store) \<times> world" where
  "Chroma_from_documents documents emb pd w =
     (if stale_client w pd then
        (Inl (LibraryError ''attempt to write a readonly database''), w)
      else
        (let es = (case stores w pd of None \<Rightarrow> [] | Some es \<Rightarrow> es) @ documents
         in (Inr \<lparr>persist_directory = pd, embedding_function = emb, collection = es\<rparr>,
             w\<lparr>stores := (stores w)(pd \<mapsto> es),
               open_clients := insert pd (open_clients w)\<rparr>)))"

text \<open>
  The result is \<open>None\<close> where the source returns \<open>None\<close>. The source has no handler
  around the library calls, so what \<open>Chroma.from_documents\<close> raises leaves the function.
\<close>

definition create_vector_store :: "document list \<Rightarrow> string \<Rightarrow> bool \<Rightarrow> world
    \<Rightarrow> (exn + vector_store option) \<times> world" where
  "create_vector_store chunks pd force_recreate w0 =
     (let w = print (''Loading embedding model: '' @ EMBEDDING_MODEL) w0;
          embeddings = EMBEDDING_MODEL
      in if path_exists w pd \<and> \<not> force_recreate then
           (let w1 = print (''Loading existing vector store from '' @ pd @ ''...'') w;
                (vs, w2) = Chroma pd embeddings w1
            in (Inr (Some vs), print ''Vector store loaded successfully.'' w2))
         else
           (let w1 = (if force_recreate \<and> path_exists w pd
                      then print ''Removed existing vector store.'' (rmtree pd w)
                      else w);
                w2 = (if chunks = []
                      then print ''No chunks to index. Returning empty initialized store if possible, or None.'' w1
                      else w1)
            in if chunks = [] \<and> \<not> path_exists w2 pd then (Inr None, w2)
               else
                 (let w3 = print ''Creating new vector store...'' w2
                  in case Chroma_from_documents chunks embeddings pd w3 of
                       (Inl ex, w4) \<Rightarrow> (Inl ex, w4)
                     | (Inr vs, w4) \<Rightarrow>
                         (Inr (Some vs),
                          print (''Vector store created and persisted to '' @ pd @ ''.'') w4))))"

section \<open>loader.py: initialize_rag_system\<close>

definition initialize_rag_system :: "env \<Rightarrow> splitter \<Rightarrow> bool \<Rightarrow> world
    \<Rightarrow> (exn + vector_store option) \<times> world" where
  "initialize_rag_system e split_text force_recreate w0 =
     (let (documents, w1) = load_documents (DOCUMENT_DIRECTORY e) w0
      in if documents = [] \<and> force_recreate then
           (Inr None, print ''No documents found to index.'' w1)
         else
           (let (chunks, w2) =
                  (if documents \<noteq> []
                   then split_documents split_text documents CHUNK_SIZE CHUNK_OVERLAP w1
                   else ([], w1))
            in create_vector_store chunks (VECTOR_STORE_DIRECTORY e) force_recreate w2))"

section \<open>chatbot.py: GroqChatModel\<close>

text \<open>
  The message classes of LangChain. Contents are text (\<open>str\<close> of a text is the text
  itself). \<open>ChatMessage\<close> carries a role of its own.
\<close>

datatype base_message =
    HumanMessage string
  | AIMessage string
  | ChatMessage string string
  | SystemMessage string
  | FunctionMessage string string
  | ToolMessage string string

text \<open>\<open>a or b\<close> on optional strings: \<open>None\<close> and the empty string are falsy.\<close>

definition truthy :: "string option \<Rightarrow> bool" where
  "truthy a = (case a of None \<Rightarrow> False | Some s \<Rightarrow> s \<noteq> [])"

definition py_or :: "string option \<Rightarrow> string option \<Rightarrow> string option" where
  "py_or a b = (if truthy a then a else b)"

text \<open>A float literal of the source, as its digits and decimal exponent: 0.7 is (7, -1).\<close>

record groq_chat_model =
  model_name :: string
  api_key :: string
  temperature :: "int \<times> int"
  api_base :: string

text \<open>
  \<open>__init__\<close>: both fields are declared \<open>str\<close>, so a value that is still \<open>None\<close>
  after the defaults is refused by the base class.
\<close>

definition GroqChatModel :: "env \<Rightarrow> string option \<Rightarrow> string option \<Rightarrow> int \<times> int
    \<Rightarrow> exn + groq_chat_model" where
  "GroqChatModel e model_name0 api_key0 temperature0 =
     (case (py_or model_name0 (Some GROQ_MODEL), py_or api_key0 (GROQ_API_KEY e)) of
        (Some m, Some k) \<Rightarrow>
          Inr \<lparr>model_name = m, api_key = k, temperature = temperature0,
               api_base = ''https://api.groq.com/openai/v1''\<rparr>
      | _ \<Rightarrow> Inl (LibraryError ''ValidationError''))"

text \<open>One turn of the first loop of \<open>_generate\<close>: the if/elif chain on the class.\<close>

fun format_message :: "base_message \<Rightarrow> wire_message" where
  "format_message (HumanMessage c) = \<lparr>role = ''user'', content = c\<rparr>"
| "format_message (AIMessage c) = \<lparr>role = ''assistant'', content = c\<rparr>"
| "format_message (ChatMessage r c) = \<lparr>role = r, content = c\<rparr>"
| "format_message (SystemMessage c) = \<lparr>role = ''user'', content = c\<rparr>"
| "format_message (FunctionMessage n c) = \<lparr>role = ''user'', content = c\<rparr>"
| "format_message (ToolMessage i c) = \<lparr>role = ''user'', content = c\<rparr>"

text \<open>The request \<open>_generate\<close> posts; \<open>stop\<close> is sent only when it is a non-empty list.\<close>

definition generate_request :: "groq_chat_model \<Rightarrow> base_message list \<Rightarrow> string list option
    \<Rightarrow> http_request" where
  "generate_request self messages stop =
     \<lparr>url = api_base self @ ''/chat/completions'',
      headers = [(''Authorization'', ''Bearer '' @ api_key self),
                 (''Content-Type'', ''application/json'')],
      json_model = model_name self,
      json_messages = map format_message messages,
      json_temperature = temperature self,
      json_stop = (case stop of None \<Rightarrow> None | Some ss \<Rightarrow> if ss = [] then None else Some ss),
      timeout = 60\<rparr>"

text \<open>
  Subscripting a decoded JSON value, with the exceptions Python raises, and the
  \<open>result["choices"][0]["message"]["content"]\<close> of the source.
\<close>

fun getitem_key :: "json \<Rightarrow> string \<Rightarrow> exn + json" where
  "getitem_key (JObj d) k =
     (case map_of d k of None \<Rightarrow> Inl (LibraryError ''KeyError'') | Some v \<Rightarrow> Inr v)"
| "getitem_key j k = Inl (LibraryError ''TypeError'')"

fun getitem_0 :: "json \<Rightarrow> exn + json" where
  "getitem_0 (JArr []) = Inl (LibraryError ''IndexError'')"
| "getitem_0 (JArr (x # xs)) = Inr x"
| "getitem_0 (JObj d) = Inl (LibraryError ''KeyError'')"
| "getitem_0 (JStr []) = Inl (LibraryError ''IndexError'')"
| "getitem_0 (JStr (c # cs)) = Inr (JStr [c])"
| "getitem_0 j = Inl (LibraryError ''TypeError'')"

definition bind_exn :: "exn + 'a \<Rightarrow> ('a \<Rightarrow> exn + 'b) \<Rightarrow> exn + 'b" where
  "bind_exn r f = (case r of Inl e \<Rightarrow> Inl e | Inr x \<Rightarrow> f x)"

definition completion_content :: "json \<Rightarrow> exn + string" where
  "completion_content result =
     bind_exn (getitem_key result ''choices'') (\<lambda>choices.
     bind_exn (getitem_0 choices) (\<lambda>choice.
     bind_exn (getitem_key choice ''message'') (\<lambda>message.
     bind_exn (getitem_key message ''content'') (\<lambda>c.
       case c of JStr s \<Rightarrow> Inr s | _ \<Rightarrow> Inl (LibraryError ''ValidationError'')))))"

text \<open>
  \<open>_generate\<close>. The network is the parameter \<open>post\<close>: what \<open>requests.post\<close> does with
  a request, a response or an exception of the transport (a timeout among them). Every
  request handed to it is recorded in \<open>http_log\<close>. The result is the list of the
  generations' messages.
\<close>

type_synonym transport = "http_request \<Rightarrow> exn + http_response"

definition generate :: "transport \<Rightarrow> groq_chat_model \<Rightarrow> base_message list
    \<Rightarrow> string list option \<Rightarrow> world \<Rightarrow> (exn + base_message list) \<times> world" where
  "generate post self messages stop w =
     (let req = generate_request self messages stop;
          w1 = w\<lparr>http_log := http_log w @ [req]\<rparr>
      in case post req of
           Inl e \<Rightarrow> (Inl e, w1)
         | Inr response \<Rightarrow>
             if status_code response \<noteq> 200 then
               (Inl (ValueError (''Groq API error: '' @ str_int (status_code response)
                                   @ '' - '' @ resp_text response)), w1)
             else
               (case json_body response of
                  None \<Rightarrow> (Inl (LibraryError ''JSONDecodeError''), w1)
                | Some result \<Rightarrow>
                    (case completion_content result of
                       Inl e \<Rightarrow> (Inl e, w1)
                     | Inr c \<Rightarrow> (Inr [AIMessage c], w1))))"

section \<open>chatbot.py: create_chatbot and chat\<close>

record retriever =
  vectorstore :: vector_store
  search_kwargs_k :: nat

record prompt_template =
  input_variables :: "string list"
  template :: string

record conversation_buffer_memory =
  memory_key :: string
  return_messages :: bool
  output_key :: string
  chat_memory :: "base_message list"

record chain =
  llm :: groq_chat_model
  chain_retriever :: retriever
  chain_memory :: conversation_buffer_memory
  combine_docs_prompt :: prompt_template
  return_source_documents :: bool
  verbose :: bool

fun join_lines :: "string list \<Rightarrow> string" where
  "join_lines [] = []"
| "join_lines [l] = l"
| "join_lines (l # ls) = l @ CHR 0x0A # join_lines ls"

definition custom_prompt :: prompt_template where
  "custom_prompt =
     \<lparr>input_variables = [''chat_history'', ''question'', ''context''],
      template = join_lines
        [''You are a helpful AI assistant that answers questions based on the provided context from PDF documents.'',
         [],
         ''Context from documents:'',
         ''{context}'',
         [],
         ''Chat history:'',
         ''{chat_history}'',
         [],
         ''User question: {question}'',
         [],
         ''Please provide a helpful and accurate answer based on the context. If the answer is not in the context, say so politely and use your general knowledge if appropriate. Always cite which document(s) you'' @ quote @ ''re referencing when possible.'',
         [],
         ''Answer:'']\<rparr>"

definition create_chatbot :: "env \<Rightarrow> vector_store \<Rightarrow> string \<Rightarrow> exn + chain" where
  "create_chatbot e vs model_name0 =
     (if \<not> truthy (GROQ_API_KEY e) then
        Inl (ValueError ''GROQ_API_KEY not found. Please set it in your .env file. Get a free key from https://console.groq.com/'')
      else
        (case GroqChatModel e (Some model_name0) (GROQ_API_KEY e) (7, -1) of
           Inl ex \<Rightarrow> Inl ex
         | Inr m \<Rightarrow>
             Inr \<lparr>llm = m,
                  chain_retriever = \<lparr>vectorstore = vs, search_kwargs_k = RETRIEVER_K\<rparr>,
                  chain_memory = \<lparr>memory_key = ''chat_history'', return_messages = True,
                                  output_key = ''answer'', chat_memory = []\<rparr>,
                  combine_docs_prompt = custom_prompt,
                  return_source_documents = True,
                  verbose = False\<rparr>))"

text \<open>
  \<open>chain.invoke\<close> belongs to LangChain's \<open>ConversationalRetrievalChain\<close>; it is the
  parameter \<open>invoke\<close>: from the chain, the inputs and the world to the outputs or an
  exception, the chain afterwards (its memory is mutable) and the world afterwards.
  In the inputs \<open>None\<close> means the key \<open>chat_history\<close> is absent.
\<close>

record chain_inputs =
  question :: string
  chat_history :: "json list option"

record chain_outputs =
  answer :: string
  source_documents :: "document list option"

type_synonym invoke_fn =
  "chain \<Rightarrow> chain_inputs \<Rightarrow> world \<Rightarrow> (exn + chain_outputs) \<times> chain \<times> world"

record chat_result =
  result_answer :: string
  result_source_documents :: "document list"

definition chat :: "invoke_fn \<Rightarrow> chain \<Rightarrow> string \<Rightarrow> json list option \<Rightarrow> world
    \<Rightarrow> (exn + chat_result) \<times> chain \<times> world" where
  "chat invoke c q history w =
     (case invoke c \<lparr>question = q, chat_history = history\<rparr> w of
        (Inl e, c', w') \<Rightarrow> (Inl e, c', w')
      | (Inr result, c', w') \<Rightarrow>
          (Inr \<lparr>result_answer = answer result,
                result_source_documents =
                  (case source_documents result of None \<Rightarrow> [] | Some ds \<Rightarrow> ds)\<rparr>, c', w'))"

section \<open>api.py\<close>

record app_state =
  app_vector_store :: "vector_store option"
  app_chain :: "chain option"
  app_initialized :: bool

definition app_state0 :: app_state where
  "app_state0 = \<lparr>app_vector_store = None, app_chain = None, app_initialized = False\<rparr>"

record init_response =
  message :: string
  success :: bool

record chat_request =
  req_question :: string
  req_chat_history :: "json list option"

record source_document =
  sd_source :: string
  sd_page_content :: string
  sd_page :: "int option"
  sd_type :: "string option"

record chat_response =
  resp_answer :: string
  resp_sources :: "source_document list"

text \<open>
  The startup half of \<open>lifespan\<close>: one \<open>try\<close> whose handler prints two lines.
  \<open>app_state["vector_store"]\<close> is assigned before \<open>create_chatbot\<close> runs, so it stays
  assigned when \<open>create_chatbot\<close> raises.
\<close>

definition lifespan_startup :: "env \<Rightarrow> splitter \<Rightarrow> app_state \<Rightarrow> world \<Rightarrow> app_state \<times> world" where
  "lifespan_startup e split_text s w =
     (let w1 = print ''Starting up... Attempting to load existing vector store.'' w;
          (vs, w2) = initialize_rag_system e split_text False w1
      in case vs of
           Inl ex \<Rightarrow>
             (s, print ''System will need explicit initialization via /initialize endpoint.''
                   (print (''Startup initialization failed (non-critical): '' @ str_exn ex) w2))
         | Inr None \<Rightarrow>
             (s, print ''No vector store found or created. System needs initialization.'' w2)
         | Inr (Some v) \<Rightarrow>
             (case create_chatbot e v GROQ_MODEL of
                Inl ex \<Rightarrow>
                  (s\<lparr>app_vector_store := Some v\<rparr>,
                   print ''System will need explicit initialization via /initialize endpoint.''
                     (print (''Startup initialization failed (non-critical): '' @ str_exn ex) w2))
              | Inr c \<Rightarrow>
                  (s\<lparr>app_vector_store := Some v, app_chain := Some c, app_initialized := True\<rparr>,
                   print ''Startup initialization successful.'' w2)))"

text \<open>POST /initialize: everything is inside one \<open>try\<close> whose handler answers 500.\<close>

definition initialize_system :: "env \<Rightarrow> splitter \<Rightarrow> bool \<Rightarrow> app_state \<Rightarrow> world
    \<Rightarrow> (exn + init_response) \<times> app_state \<times> world" where
  "initialize_system e split_text force_recreate s w =
     (let (vs, w1) = initialize_rag_system e split_text force_recreate w
      in case vs of
           Inl ex \<Rightarrow>
             (Inl (HTTPException 500 (''Initialization failed: '' @ str_exn ex)), s, w1)
         | Inr None \<Rightarrow>
             (Inl (HTTPException 500
                    (''Initialization failed: '' @
                     str_exn (Exception (''Failed to create vector store. Check if documents exist in ''
                                          @ quote @ ''documents'' @ quote @ '' folder.'')))),
              s, w1)
         | Inr (Some v) \<Rightarrow>
             (case create_chatbot e v GROQ_MODEL of
                Inl ex \<Rightarrow>
                  (Inl (HTTPException 500 (''Initialization failed: '' @ str_exn ex)),
                   s\<lparr>app_vector_store := Some v\<rparr>, w1)
              | Inr c \<Rightarrow>
                  (Inr \<lparr>message = ''System initialized successfully'', success = True\<rparr>,
                   s\<lparr>app_vector_store := Some v, app_chain := Some c, app_initialized := True\<rparr>,
                   w1)))"

text \<open>
  \<open>SourceDocument(...)\<close> for one retrieved document: \<open>source\<close> must be a string,
  \<open>page\<close> an integer when it is there, \<open>type\<close> a string; otherwise the constructor
  raises (the conversions pydantic would still try on other values are left out).
\<close>

definition SourceDocument :: "document \<Rightarrow> exn + source_document" where
  "SourceDocument doc =
     (case (case dict_get (metadata doc) ''source'' of None \<Rightarrow> MStr ''Unknown'' | Some v \<Rightarrow> v,
            dict_get (metadata doc) ''page'',
            case dict_get (metadata doc) ''type'' of None \<Rightarrow> MStr ''unknown'' | Some v \<Rightarrow> v) of
        (MStr src, None, MStr ty) \<Rightarrow>
          Inr \<lparr>sd_source = src, sd_page_content = page_content doc, sd_page = None,
               sd_type = Some ty\<rparr>
      | (MStr src, Some (MInt pg), MStr ty) \<Rightarrow>
          Inr \<lparr>sd_source = src, sd_page_content = page_content doc, sd_page = Some pg,
               sd_type = Some ty\<rparr>
      | _ \<Rightarrow> Inl (LibraryError ''ValidationError''))"

fun format_sources :: "document list \<Rightarrow> exn + source_document list" where
  "format_sources [] = Inr []"
| "format_sources (doc # docs) =
     bind_exn (SourceDocument doc) (\<lambda>sd.
     bind_exn (format_sources docs) (\<lambda>sds. Inr (sd # sds)))"

text \<open>
  POST /chat. The guard is outside the \<open>try\<close>; whatever is raised inside it is answered
  with 500. The chain is one shared object, so the state afterwards holds the chain as
  \<open>invoke\<close> left it.
\<close>

definition api_chat :: "invoke_fn \<Rightarrow> chat_request \<Rightarrow> app_state \<Rightarrow> world
    \<Rightarrow> (exn + chat_response) \<times> app_state \<times> world" where
  "api_chat invoke request s w =
     (case (app_initialized s, app_chain s) of
        (True, Some c) \<Rightarrow>
          (let inputs = \<lparr>question = req_question request,
                         chat_history = (case req_chat_history request of
                                           None \<Rightarrow> None
                                         | Some h \<Rightarrow> if h = [] then None else Some h)\<rparr>
           in case invoke c inputs w of
                (Inl ex, c', w') \<Rightarrow>
                  (Inl (HTTPException 500 (''Error generating response: '' @ str_exn ex)),
                   s\<lparr>app_chain := Some c'\<rparr>, w')
              | (Inr result, c', w') \<Rightarrow>
                  (case format_sources (case source_documents result of
                                          None \<Rightarrow> [] | Some ds \<Rightarrow> ds) of
                     Inl ex \<Rightarrow>
                       (Inl (HTTPException 500 (''Error generating response: '' @ str_exn ex)),
                        s\<lparr>app_chain := Some c'\<rparr>, w')
                   | Inr sources \<Rightarrow>
                       (Inr \<lparr>resp_answer = answer result, resp_sources = sources\<rparr>,
                        s\<lparr>app_chain := Some c'\<rparr>, w')))
      | _ \<Rightarrow>
          (Inl (HTTPException 400 ''System not initialized. Please call /initialize first.''),
           s, w))"

section \<open>Notions used to state the properties\<close>

text \<open>
  The records one file contributes: those of its loader, stamped with the file's name and
  the type of its extension, and none when its loader raises.
\<close>

definition records_of :: "string \<Rightarrow> dir_entry \<Rightarrow> document list" where
  "records_of ty f =
     (case loader_load f of Inl e \<Rightarrow> [] | Inr ds \<Rightarrow> map (add_metadata (file_name f) ty) ds)"

definition doc_type :: "document \<Rightarrow> meta_value option" where
  "doc_type doc = dict_get (metadata doc) ''type''"

text \<open>
  A sequence is PDF-first when it is a run of records of type pdf followed by a run of
  records of type txt.
\<close>

definition pdf_first :: "document list \<Rightarrow> bool" where
  "pdf_first docs =
     (let n = length (filter (\<lambda>d. doc_type d = Some (MStr ''pdf'')) docs)
      in list_all (\<lambda>d. doc_type d = Some (MStr ''pdf'')) (take n docs) \<and>
         list_all (\<lambda>d. doc_type d = Some (MStr ''txt'')) (drop n docs))"

text \<open>The class of a message, as LangChain's \<open>type\<close> field names it.\<close>

fun message_class :: "base_message \<Rightarrow> string" where
  "message_class (HumanMessage c) = ''human''"
| "message_class (AIMessage c) = ''ai''"
| "message_class (ChatMessage r c) = ''chat''"
| "message_class (SystemMessage c) = ''system''"
| "message_class (FunctionMessage n c) = ''function''"
| "message_class (ToolMessage i c) = ''tool''"

text \<open>The guard of POST /chat.\<close>

definition uninitialized :: "app_state \<Rightarrow> bool" where
  "uninitialized s = (\<not> app_initialized s \<or> app_chain s = None)"

text \<open>
  A directory has no loadable documents when it does not exist or when none of its PDF
  and TXT files yields a record.
\<close>

definition no_loadable_documents :: "world \<Rightarrow> string \<Rightarrow> bool" where
  "no_loadable_documents w d =
     (case doc_dirs w d of
        None \<Rightarrow> True
      | Some entries \<Rightarrow>
          list_all (\<lambda>f. records_of ''pdf'' f = []) (glob ''.pdf'' entries) \<and>
          list_all (\<lambda>f. records_of ''txt'' f = []) (glob ''.txt'' entries))"

subsection \<open>Example inputs\<close>

definition example_txt :: dir_entry where
  "example_txt =
     \<lparr>file_name = ''notes.txt'',
      loader_load = Inr [\<lparr>page_content = ''hello world'',
                          metadata = [(''source'', MStr ''/app/documents/notes.txt'')]\<rparr>]\<rparr>"

definition example_bad_pdf :: dir_entry where
  "example_bad_pdf =
     \<lparr>file_name = ''broken.pdf'', loader_load = Inl (LibraryError ''EOF marker not found'')\<rparr>"

definition example_pdf :: dir_entry where
  "example_pdf =
     \<lparr>file_name = ''a.pdf'',
      loader_load = Inr [\<lparr>page_content = ''page one'',
                          metadata = [(''source'', MStr ''/app/documents/a.pdf''), (''page'', MInt 0)]\<rparr>,
                         \<lparr>page_content = ''page two'',
                          metadata = [(''source'', MStr ''/app/documents/a.pdf''), (''page'', MInt 1)]\<rparr>]\<rparr>"

definition example_world :: "dir_entry list \<Rightarrow> world" where
  "example_world entries =
     \<lparr>doc_dirs = [''/app/documents'' \<mapsto> entries], stores = Map.empty, open_clients = {},
      stdout = [], http_log = []\<rparr>"

definition example_env :: env where
  "example_env = \<lparr>ROOT_DIR = ''/app'', GROQ_API_KEY = Some ''gsk-example''\<rparr>"

definition example_env_no_key :: env where
  "example_env_no_key = \<lparr>ROOT_DIR = ''/app'', GROQ_API_KEY = None\<rparr>"

definition example_chunk :: document where
  "example_chunk =
     \<lparr>page_content = ''indexed earlier'',
      metadata = [(''source'', MStr ''old.txt''), (''type'', MStr ''txt'')]\<rparr>"

definition example_indexed_world :: "dir_entry list \<Rightarrow> world" where
  "example_indexed_world entries =
     \<lparr>doc_dirs = [''/app/documents'' \<mapsto> entries],
      stores = [''/app/vector_store'' \<mapsto> [example_chunk]], open_clients = {},
      stdout = [], http_log = []\<rparr>"

definition example_splitter :: splitter where
  "example_splitter chunk_size chunk_overlap t =
     (if length t \<le> chunk_size then [t] else [take chunk_size t, drop (chunk_size - chunk_overlap) t])"

definition example_fresh_store :: vector_store where
  "example_fresh_store =
     \<lparr>persist_directory = ''/app/vector_store'',
      embedding_function = ''sentence-transformers/all-MiniLM-L6-v2'',
      collection =
        [\<lparr>page_content = ''page one'',
          metadata = [(''source'', MStr ''a.pdf''), (''page'', MInt 0), (''type'', MStr ''pdf'')]\<rparr>,
         \<lparr>page_content = ''page two'',
          metadata = [(''source'', MStr ''a.pdf''), (''page'', MInt 1), (''type'', MStr ''pdf'')]\<rparr>,
         \<lparr>page_content = ''hello world'',
          metadata = [(''source'', MStr ''notes.txt''), (''type'', MStr ''txt'')]\<rparr>]\<rparr>"

definition example_txt_record :: document where
  "example_txt_record =
     \<lparr>page_content = ''hello world'',
      metadata = [(''source'', MStr ''notes.txt''), (''type'', MStr ''txt'')]\<rparr>"

definition example_model :: groq_chat_model where
  "example_model =
     \<lparr>model_name = GROQ_MODEL, api_key = ''gsk-example'', temperature = (7, -1),
      api_base = ''https://api.groq.com/openai/v1''\<rparr>"

definition example_post_500 :: transport where
  "example_post_500 req =
     Inr \<lparr>status_code = 500, resp_text = ''Internal Server Error'', json_body = None\<rparr>"

text \<open>An \<open>invoke\<close> that would reach the network whenever it is called.\<close>

definition example_invoke :: invoke_fn where
  "example_invoke c inputs w =
     (Inr \<lparr>answer = ''an answer'', source_documents = Some []\<rparr>, c,
      w\<lparr>http_log := http_log w @ [generate_request (llm c) [HumanMessage (question inputs)] None]\<rparr>)"

definition example_chain :: chain where
  "example_chain =
     \<lparr>llm = example_model,
      chain_retriever = \<lparr>vectorstore = example_fresh_store, search_kwargs_k = RETRIEVER_K\<rparr>,
      chain_memory = \<lparr>memory_key = ''chat_history'', return_messages = True,
                      output_key = ''answer'', chat_memory = []\<rparr>,
      combine_docs_prompt = custom_prompt,
      return_source_documents = True,
      verbose = False\<rparr>"

definition example_initialized :: app_state where
  "example_initialized =
     \<lparr>app_vector_store = Some example_fresh_store, app_chain = Some example_chain,
      app_initialized = True\<rparr>"

section \<open>Lemmas\<close>

subsection \<open>Integers as text\<close>

lemma digit_char_inj: "a < 10 \<Longrightarrow> b < 10 \<Longrightarrow> digit_char a = digit_char b \<Longrightarrow> a = b"
proof -
  assume a: "a < 10" and b: "b < 10" and e: "digit_char a = digit_char b"
  have d: "distinct ''0123456789''" by simp
  have l: "length ''0123456789'' = 10" by simp
  from e have "''0123456789'' ! a = ''0123456789'' ! b" by (simp only: digit_char_def)
  with d a b l show "a = b" by (metis nth_eq_iff_index_eq)
qed

lemma digit_char_digit: "d < 10 \<Longrightarrow> digit_char d \<in> set ''0123456789''"
  unfolding digit_char_def by (intro nth_mem) simp

lemma str_nat_not_Nil: "str_nat n \<noteq> []"
  by (subst str_nat.simps) simp

lemma str_nat_digits: "set (str_nat n) \<subseteq> set ''0123456789''"
proof (induction n rule: str_nat.induct)
  case (1 n)
  show ?case
  proof (cases "n < 10")
    case True
    then have "str_nat n = [digit_char n]" by (subst str_nat.simps) simp
    with True digit_char_digit [of n] show ?thesis by simp
  next
    case False
    then have "str_nat n = str_nat (n div 10) @ [digit_char (n mod 10)]"
      by (subst str_nat.simps) simp
    moreover have "digit_char (n mod 10) \<in> set ''0123456789''"
      by (rule digit_char_digit) simp
    ultimately show ?thesis using "1.IH" [OF False] by simp
  qed
qed

lemma str_nat_inj: "str_nat n = str_nat m \<Longrightarrow> n = m"
proof (induction n arbitrary: m rule: str_nat.induct)
  case (1 n)
  show ?case
  proof (cases "n < 10")
    case n: True
    show ?thesis
    proof (cases "m < 10")
      case True
      with n "1.prems" have "digit_char n = digit_char m"
        by (simp add: str_nat.simps [of n] str_nat.simps [of m])
      with n True show ?thesis by (rule digit_char_inj)
    next
      case False
      with n "1.prems" have "[digit_char n] = str_nat (m div 10) @ [digit_char (m mod 10)]"
        by (simp add: str_nat.simps [of n] str_nat.simps [of m])
      then have "str_nat (m div 10) = []" by simp
      with str_nat_not_Nil show ?thesis by blast
    qed
  next
    case n: False
    show ?thesis
    proof (cases "m < 10")
      case True
      with n "1.prems" have "str_nat (n div 10) @ [digit_char (n mod 10)] = [digit_char m]"
        by (simp add: str_nat.simps [of n] str_nat.simps [of m])
      then have "str_nat (n div 10) = []" by simp
      with str_nat_not_Nil show ?thesis by blast
    next
      case False
      with n "1.prems" have "str_nat (n div 10) @ [digit_char (n mod 10)] =
                             str_nat (m div 10) @ [digit_char (m mod 10)]"
        by (simp add: str_nat.simps [of n] str_nat.simps [of m])
      then have q: "str_nat (n div 10) = str_nat (m div 10)"
        and r: "digit_char (n mod 10) = digit_char (m mod 10)" by simp_all
      from "1.IH" [OF n q] have "n div 10 = m div 10" .
      moreover from r have "n mod 10 = m mod 10" by (intro digit_char_inj) simp_all
      ultimately show ?thesis by (metis div_mult_mod_eq)
    qed
  qed
qed

lemma str_int_inj: "str_int i = str_int j \<Longrightarrow> i = j"
proof -
  assume e: "str_int i = str_int j"
  have hd_nat: "hd (str_nat n) \<noteq> CHR ''-''" for n
  proof -
    have "hd (str_nat n) \<in> set (str_nat n)" using str_nat_not_Nil by simp
    with str_nat_digits have "hd (str_nat n) \<in> set ''0123456789''" by blast
    then show ?thesis by auto
  qed
  show "i = j"
  proof (cases "i < 0")
    case i: True
    show ?thesis
    proof (cases "j < 0")
      case True
      with i e have "str_nat (nat (- i)) = str_nat (nat (- j))" by (simp add: str_int_def)
      then have "nat (- i) = nat (- j)" by (rule str_nat_inj)
      with i True show ?thesis by simp
    next
      case False
      with i e have "CHR ''-'' # str_nat (nat (- i)) = str_nat (nat j)" by (simp add: str_int_def)
      then have "hd (str_nat (nat j)) = CHR ''-''" by (metis list.sel(1))
      with hd_nat show ?thesis by blast
    qed
  next
    case i: False
    show ?thesis
    proof (cases "j < 0")
      case True
      with i e have "str_nat (nat i) = CHR ''-'' # str_nat (nat (- j))" by (simp add: str_int_def)
      then have "hd (str_nat (nat i)) = CHR ''-''" by (metis list.sel(1))
      with hd_nat show ?thesis by blast
    next
      case False
      with i e have "str_nat (nat i) = str_nat (nat j)" by (simp add: str_int_def)
      then have "nat i = nat j" by (rule str_nat_inj)
      with i False show ?thesis by simp
    qed
  qed
qed

lemma str_int_no_space: "CHR '' '' \<notin> set (str_int i)"
proof -
  have "CHR '' '' \<notin> set (str_nat n)" for n
    using str_nat_digits [of n] by auto
  then show ?thesis by (simp add: str_int_def)
qed

lemma split_at_first:
  "x \<notin> set xs \<Longrightarrow> x \<notin> set xs' \<Longrightarrow> xs @ x # ys = xs' @ x # ys' \<Longrightarrow> xs = xs' \<and> ys = ys'"
proof (induction xs arbitrary: xs')
  case Nil
  then show ?case by (cases xs') auto
next
  case (Cons a xs)
  then show ?case by (cases xs') auto
qed

lemma groq_error_message_inj:
  assumes "''Groq API error: '' @ str_int c @ '' - '' @ b =
           ''Groq API error: '' @ str_int c' @ '' - '' @ b'"
  shows "c = c' \<and> b = b'"
proof -
  from assms have "str_int c @ CHR '' '' # (''- '' @ b) = str_int c' @ CHR '' '' # (''- '' @ b')"
    by simp
  then have "str_int c = str_int c' \<and> ''- '' @ b = ''- '' @ b'"
    by (rule split_at_first [OF str_int_no_space str_int_no_space])
  then show ?thesis using str_int_inj by simp
qed

subsection \<open>Loading documents\<close>

lemma load_files_docs:
  "fst (load_files ty fs (docs, out)) = docs @ concat (map (records_of ty) fs)"
  by (induction fs arbitrary: docs out) (auto simp: load_try_def records_of_def split: sum.splits)

lemma load_files_out_mono:
  "set out \<subseteq> set (snd (load_files ty fs (docs, out)))"
proof (induction fs arbitrary: docs out)
  case Nil
  show ?case by simp
next
  case (Cons f fs)
  show ?case
  proof (cases "loader_load f")
    case (Inl e)
    have "set (out @ [''Loading: '' @ file_name f] @ [''Error loading '' @ file_name f @ '': '' @ str_exn e])
          \<subseteq> set (snd (load_files ty fs (docs, out @ [''Loading: '' @ file_name f] @ [''Error loading '' @ file_name f @ '': '' @ str_exn e])))"
      by (rule Cons.IH)
    with Inl show ?thesis by (auto simp: load_try_def)
  next
    case (Inr ds)
    have "set (out @ [''Loading: '' @ file_name f])
          \<subseteq> set (snd (load_files ty fs (docs @ map (add_metadata (file_name f) ty) ds, out @ [''Loading: '' @ file_name f])))"
      by (rule Cons.IH)
    with Inr show ?thesis by (auto simp: load_try_def)
  qed
qed

lemma load_files_logs_error:
  "f \<in> set fs \<Longrightarrow> loader_load f = Inl e \<Longrightarrow>
   (''Error loading '' @ file_name f @ '': '' @ str_exn e) \<in> set (snd (load_files ty fs (docs, out)))"
proof (induction fs arbitrary: docs out)
  case Nil
  then show ?case by simp
next
  case (Cons g fs)
  show ?case
  proof (cases "g = f")
    case True
    let ?out = "out @ [''Loading: '' @ file_name f] @ [''Error loading '' @ file_name f @ '': '' @ str_exn e]"
    have "set ?out \<subseteq> set (snd (load_files ty fs (docs, ?out)))"
      by (rule load_files_out_mono)
    with True Cons.prems(2) show ?thesis by (auto simp: load_try_def)
  next
    case False
    with Cons.prems have "f \<in> set fs" by simp
    from Cons.IH [OF this Cons.prems(2)] show ?thesis
      by (auto simp: load_try_def Let_def split: sum.splits)
  qed
qed

lemma dict_get_set: "dict_get (dict_set k v d) k = Some v"
  by (induction d) (auto simp: dict_get_def)

lemma doc_type_add_metadata: "doc_type (add_metadata nm ty doc) = Some (MStr ty)"
  by (simp add: doc_type_def add_metadata_def dict_get_set)

lemma doc_type_records_of: "doc \<in> set (records_of ty f) \<Longrightarrow> doc_type doc = Some (MStr ty)"
  by (auto simp: records_of_def doc_type_add_metadata split: sum.splits)

lemma load_documents_docs:
  "fst (load_documents d w) =
     (case doc_dirs w d of
        None \<Rightarrow> []
      | Some entries \<Rightarrow>
          concat (map (records_of ''pdf'') (glob ''.pdf'' entries)) @
          concat (map (records_of ''txt'') (glob ''.txt'' entries)))"
  by (auto simp: load_documents_def Let_def load_files_docs split: option.splits)

lemma load_documents_world:
  "doc_dirs w d = Some entries \<Longrightarrow>
   snd (load_documents d w) = w\<lparr>stdout := stdout (snd (load_documents d w))\<rparr>"
  by (simp add: load_documents_def Let_def)

lemma load_documents_stores: "stores (snd (load_documents d w)) = stores w"
  by (simp add: load_documents_def Let_def print_def split: option.splits)

lemma load_documents_empty_iff:
  "fst (load_documents d w) = [] \<longleftrightarrow> no_loadable_documents w d"
  by (auto simp: load_documents_docs no_loadable_documents_def list_all_iff split: option.splits)

lemma load_documents_logs_pdf:
  assumes "doc_dirs w d = Some entries" "f \<in> set entries" "ends_with ''.pdf'' (file_name f)"
    "loader_load f = Inl e"
  shows "(''Error loading '' @ file_name f @ '': '' @ str_exn e) \<in> set (stdout (snd (load_documents d w)))"
proof -
  let ?line = "''Error loading '' @ file_name f @ '': '' @ str_exn e"
  let ?pdfs = "glob ''.pdf'' entries"
  let ?txts = "glob ''.txt'' entries"
  let ?st1 = "load_files ''pdf'' ?pdfs
                ([], stdout w @ [''Found '' @ str_nat (length ?pdfs) @ '' PDF file(s).''])"
  from assms have mem: "f \<in> set ?pdfs" by (simp add: glob_def)
  then have ne: "?pdfs \<noteq> []" by auto
  have in1: "?line \<in> set (snd ?st1)"
    using load_files_logs_error [OF mem assms(4)] .
  have in2: "?line \<in> set (snd (load_files ''txt'' ?txts
                 (fst ?st1, snd ?st1 @ [''Found '' @ str_nat (length ?txts) @ '' TXT file(s).''])))"
    using in1 load_files_out_mono [of "snd ?st1 @ [''Found '' @ str_nat (length ?txts) @ '' TXT file(s).'']"
        "''txt''" ?txts "fst ?st1"] by auto
  show ?thesis
    using assms(1) ne in1 in2 by (simp add: load_documents_def Let_def)
qed

lemma load_documents_logs_txt:
  assumes "doc_dirs w d = Some entries" "f \<in> set entries" "ends_with ''.txt'' (file_name f)"
    "loader_load f = Inl e"
  shows "(''Error loading '' @ file_name f @ '': '' @ str_exn e) \<in> set (stdout (snd (load_documents d w)))"
proof -
  let ?txts = "glob ''.txt'' entries"
  from assms have mem: "f \<in> set ?txts" by (simp add: glob_def)
  then have ne: "?txts \<noteq> []" by auto
  have "\<And>docs out. (''Error loading '' @ file_name f @ '': '' @ str_exn e)
          \<in> set (snd (load_files ''txt'' ?txts (docs, out)))"
    using load_files_logs_error [OF mem assms(4)] .
  then show ?thesis
    using assms(1) ne by (simp add: load_documents_def Let_def)
qed

subsection \<open>PDF-first sequences\<close>

lemma pdf_first_append:
  assumes "list_all (\<lambda>d. doc_type d = Some (MStr ''pdf'')) P"
    and "list_all (\<lambda>d. doc_type d = Some (MStr ''txt'')) T"
  shows "pdf_first (P @ T)"
proof -
  from assms(1) have fp: "filter (\<lambda>d. doc_type d = Some (MStr ''pdf'')) P = P"
    by (simp add: list_all_iff)
  from assms(2) have ft: "filter (\<lambda>d. doc_type d = Some (MStr ''pdf'')) T = []"
    by (auto simp: list_all_iff filter_empty_conv)
  show ?thesis
    using assms by (simp add: pdf_first_def Let_def fp ft)
qed

lemma pdf_first_split:
  assumes "pdf_first docs"
  shows "\<exists>P T. docs = P @ T \<and> list_all (\<lambda>d. doc_type d = Some (MStr ''pdf'')) P
               \<and> list_all (\<lambda>d. doc_type d = Some (MStr ''txt'')) T"
proof -
  let ?n = "length (filter (\<lambda>d. doc_type d = Some (MStr ''pdf'')) docs)"
  have "docs = take ?n docs @ drop ?n docs" by simp
  with assms show ?thesis unfolding pdf_first_def Let_def by blast
qed

lemma pdf_first_load_documents: "pdf_first (fst (load_documents d w))"
proof (cases "doc_dirs w d")
  case None
  then show ?thesis by (simp add: load_documents_docs pdf_first_def)
next
  case (Some entries)
  have "list_all (\<lambda>d. doc_type d = Some (MStr ty)) (concat (map (records_of ty) fs))" for ty fs
    by (auto simp: list_all_iff doc_type_records_of)
  then show ?thesis
    using Some by (simp add: load_documents_docs pdf_first_append)
qed

lemma split_documents_chunks:
  "fst (split_documents sp docs cs co w) =
     concat (map (\<lambda>doc. map (\<lambda>t. doc\<lparr>page_content := t\<rparr>) (sp cs co (page_content doc))) docs)"
  by (simp add: split_documents_def Let_def)

lemma split_documents_stores: "stores (snd (split_documents sp docs cs co w)) = stores w"
  by (simp add: split_documents_def Let_def print_def)

lemma pdf_first_split_documents:
  assumes "pdf_first docs"
  shows "pdf_first (fst (split_documents sp docs cs co w))"
proof -
  from pdf_first_split [OF assms] obtain P T where
    docs: "docs = P @ T"
    and P: "list_all (\<lambda>d. doc_type d = Some (MStr ''pdf'')) P"
    and T: "list_all (\<lambda>d. doc_type d = Some (MStr ''txt'')) T" by blast
  let ?cut = "\<lambda>ds. concat (map (\<lambda>doc. map (\<lambda>t. doc\<lparr>page_content := t\<rparr>) (sp cs co (page_content doc))) ds)"
  have keep: "list_all (\<lambda>d. doc_type d = v) ds \<Longrightarrow> list_all (\<lambda>d. doc_type d = v) (?cut ds)" for v ds
    by (auto simp: list_all_iff doc_type_def)
  have "pdf_first (?cut P @ ?cut T)"
    by (rule pdf_first_append) (rule keep [OF P], rule keep [OF T])
  then show ?thesis by (simp add: split_documents_chunks docs)
qed

subsection \<open>The vector store\<close>

lemma world_stores_triv: "stores w pd = Some es \<Longrightarrow> w\<lparr>stores := (stores w)(pd \<mapsto> es)\<rparr> = w"
  by (simp add: map_upd_triv)

lemma load_documents_clients: "open_clients (snd (load_documents d w)) = open_clients w"
  by (simp add: load_documents_def Let_def print_def split: option.splits)

lemma split_documents_clients: "open_clients (snd (split_documents sp docs cs co w)) = open_clients w"
  by (simp add: split_documents_def Let_def print_def)

lemma create_vector_store_existing:
  assumes "stores w pd = Some es"
  shows "fst (create_vector_store chunks pd False w) =
           Inr (Some \<lparr>persist_directory = pd, embedding_function = EMBEDDING_MODEL,
                      collection = es\<rparr>)"
    and "stores (snd (create_vector_store chunks pd False w)) = stores w"
    and "open_clients (snd (create_vector_store chunks pd False w)) = insert pd (open_clients w)"
proof -
  let ?w1 = "print (''Loading existing vector store from '' @ pd @ ''...'')
           (print (''Loading embedding model: '' @ EMBEDDING_MODEL) w)"
  from assms have s1: "stores ?w1 pd = Some es" by (simp add: print_def)
  have c: "Chroma pd EMBEDDING_MODEL ?w1 =
     (\<lparr>persist_directory = pd, embedding_function = EMBEDDING_MODEL, collection = es\<rparr>,
      ?w1\<lparr>open_clients := insert pd (open_clients w)\<rparr>)"
    using s1 by (simp add: Chroma_def map_upd_triv print_def del: fun_upd_apply)
  have p: "path_exists (print (''Loading embedding model: '' @ EMBEDDING_MODEL) w) pd"
    using assms by (simp add: path_exists_def print_def)
  from c p show "fst (create_vector_store chunks pd False w) =
           Inr (Some \<lparr>persist_directory = pd, embedding_function = EMBEDDING_MODEL,
                      collection = es\<rparr>)"
    by (simp add: create_vector_store_def Let_def)
  from c p show "stores (snd (create_vector_store chunks pd False w)) = stores w"
    by (simp add: create_vector_store_def Let_def print_def)
  from c p show "open_clients (snd (create_vector_store chunks pd False w)) =
      insert pd (open_clients w)"
    by (simp add: create_vector_store_def Let_def print_def)
qed

text \<open>
  The build branch, whatever the library does: an index that was there is gone unless
  the build succeeded, and a store that is returned holds exactly the chunks.
\<close>

lemma create_vector_store_rebuild:
  assumes "force_recreate \<or> stores w pd = None"
  shows "stores (snd (create_vector_store chunks pd force_recreate w)) =
           (case fst (create_vector_store chunks pd force_recreate w) of
              Inr (Some vs) \<Rightarrow> (stores w)(pd \<mapsto> chunks)
            | _ \<Rightarrow> (stores w)(pd := None))"
    and "fst (create_vector_store chunks pd force_recreate w) = Inr (Some vs) \<Longrightarrow>
           chunks \<noteq> [] \<and>
           vs = \<lparr>persist_directory = pd, embedding_function = EMBEDDING_MODEL,
                 collection = chunks\<rparr>"
    and "chunks = [] \<Longrightarrow> fst (create_vector_store chunks pd force_recreate w) = Inr None"
    and "doc_dirs (snd (create_vector_store chunks pd force_recreate w)) = doc_dirs w"
    and "http_log (snd (create_vector_store chunks pd force_recreate w)) = http_log w"
  using assms
  by (auto simp: create_vector_store_def Let_def path_exists_def print_def rmtree_def
      Chroma_from_documents_def stale_client_def split: option.splits if_splits)


text \<open>The build branch in a process that holds no client on the directory.\<close>

lemma create_vector_store_fresh:
  assumes "force_recreate \<or> stores w pd = None" and "pd \<notin> open_clients w"
  shows "fst (create_vector_store chunks pd force_recreate w) =
           (if chunks = [] then Inr None
            else Inr (Some \<lparr>persist_directory = pd, embedding_function = EMBEDDING_MODEL,
                            collection = chunks\<rparr>))"
    and "stores (snd (create_vector_store chunks pd force_recreate w)) =
           (if chunks = [] then (stores w)(pd := None) else (stores w)(pd \<mapsto> chunks))"
  using assms
  by (auto simp: create_vector_store_def Let_def path_exists_def print_def rmtree_def
      Chroma_from_documents_def stale_client_def split: option.splits)

text \<open>
  The build branch in a process that holds a client on the directory (it loaded or
  built the index before): the index is deleted and the build raises.
\<close>

lemma create_vector_store_stale_client:
  assumes "force_recreate \<or> stores w pd = None" and "pd \<in> open_clients w" and "chunks \<noteq> []"
  shows "fst (create_vector_store chunks pd force_recreate w) =
           Inl (LibraryError ''attempt to write a readonly database'')"
    and "stores (snd (create_vector_store chunks pd force_recreate w)) = (stores w)(pd := None)"
  using assms
  by (auto simp: create_vector_store_def Let_def path_exists_def print_def rmtree_def
      Chroma_from_documents_def stale_client_def split: option.splits)

text \<open>
  So a process that has loaded the index cannot rebuild it: the forced rebuild deletes
  the index and raises.
\<close>

lemma create_vector_store_rebuild_after_load:
  assumes "stores w pd = Some es" and "chunks \<noteq> []"
  shows "fst (create_vector_store chunks pd True (snd (create_vector_store chunks0 pd False w))) =
           Inl (LibraryError ''attempt to write a readonly database'')"
    and "stores (snd (create_vector_store chunks pd True
                       (snd (create_vector_store chunks0 pd False w)))) pd = None"
proof -
  let ?w1 = "snd (create_vector_store chunks0 pd False w)"
  have c: "pd \<in> open_clients ?w1"
    using create_vector_store_existing(3) [OF assms(1), of chunks0] by simp
  have h: "True \<or> stores ?w1 pd = None" by simp
  from create_vector_store_stale_client [OF h c assms(2)]
  show "fst (create_vector_store chunks pd True ?w1) =
           Inl (LibraryError ''attempt to write a readonly database'')"
    and "stores (snd (create_vector_store chunks pd True ?w1)) pd = None"
    by simp_all
qed

lemma initialize_rag_system_unfold:
  "initialize_rag_system e sp force_recreate w =
     (let documents = fst (load_documents (DOCUMENT_DIRECTORY e) w);
          w1 = snd (load_documents (DOCUMENT_DIRECTORY e) w)
      in if documents = [] then
           (if force_recreate then (Inr None, print ''No documents found to index.'' w1)
            else create_vector_store [] (VECTOR_STORE_DIRECTORY e) force_recreate w1)
         else create_vector_store
                (fst (split_documents sp documents CHUNK_SIZE CHUNK_OVERLAP w1))
                (VECTOR_STORE_DIRECTORY e) force_recreate
                (snd (split_documents sp documents CHUNK_SIZE CHUNK_OVERLAP w1)))"
  by (simp add: initialize_rag_system_def Let_def split_beta)

lemma initialize_rag_system_fresh_collection:
  assumes "force_recreate \<or> stores w (VECTOR_STORE_DIRECTORY e) = None"
    and "fst (initialize_rag_system e sp force_recreate w) = Inr (Some vs)"
  shows "collection vs =
           fst (split_documents sp (fst (load_documents (DOCUMENT_DIRECTORY e) w))
                  CHUNK_SIZE CHUNK_OVERLAP w')"
proof -
  let ?docs = "fst (load_documents (DOCUMENT_DIRECTORY e) w)"
  let ?w1 = "snd (load_documents (DOCUMENT_DIRECTORY e) w)"
  let ?chunks = "fst (split_documents sp ?docs CHUNK_SIZE CHUNK_OVERLAP ?w1)"
  let ?w2 = "snd (split_documents sp ?docs CHUNK_SIZE CHUNK_OVERLAP ?w1)"
  have indep: "fst (split_documents sp ?docs CHUNK_SIZE CHUNK_OVERLAP w') = ?chunks"
    by (simp add: split_documents_chunks)
  show ?thesis
  proof (cases "?docs = []")
    case True
    have h: "force_recreate \<or> stores ?w1 (VECTOR_STORE_DIRECTORY e) = None"
      using assms(1) by (simp add: load_documents_stores)
    from create_vector_store_rebuild(3) [OF h, of "[]"] True assms(2)
    show ?thesis by (simp add: initialize_rag_system_unfold Let_def split: if_splits)
  next
    case False
    have h: "force_recreate \<or> stores ?w2 (VECTOR_STORE_DIRECTORY e) = None"
      using assms(1) by (simp add: load_documents_stores split_documents_stores)
    from False assms(2)
    have "fst (create_vector_store ?chunks (VECTOR_STORE_DIRECTORY e) force_recreate ?w2) =
            Inr (Some vs)"
      by (simp add: initialize_rag_system_unfold Let_def)
    from create_vector_store_rebuild(2) [OF h this]
    have "collection vs = ?chunks" by simp
    with indep show ?thesis by simp
  qed
qed

lemma initialize_rag_system_no_documents_force:
  assumes "no_loadable_documents w (DOCUMENT_DIRECTORY e)"
  shows "fst (initialize_rag_system e sp True w) = Inr None"
    and "stores (snd (initialize_rag_system e sp True w)) = stores w"
  using assms
  by (simp_all add: initialize_rag_system_unfold Let_def load_documents_empty_iff
      load_documents_stores print_def)

lemma initialize_rag_system_no_documents_existing:
  assumes "no_loadable_documents w (DOCUMENT_DIRECTORY e)"
    and "stores w (VECTOR_STORE_DIRECTORY e) = Some es"
  shows "fst (initialize_rag_system e sp False w) =
           Inr (Some \<lparr>persist_directory = VECTOR_STORE_DIRECTORY e,
                      embedding_function = EMBEDDING_MODEL, collection = es\<rparr>)"
    and "stores (snd (initialize_rag_system e sp False w)) = stores w"
proof -
  let ?w1 = "snd (load_documents (DOCUMENT_DIRECTORY e) w)"
  from assms(2) have "stores ?w1 (VECTOR_STORE_DIRECTORY e) = Some es"
    by (simp add: load_documents_stores)
  from create_vector_store_existing(1,2) [OF this, of "[]"] assms(1)
  show "fst (initialize_rag_system e sp False w) =
           Inr (Some \<lparr>persist_directory = VECTOR_STORE_DIRECTORY e,
                      embedding_function = EMBEDDING_MODEL, collection = es\<rparr>)"
    and "stores (snd (initialize_rag_system e sp False w)) = stores w"
    by (simp_all add: initialize_rag_system_unfold Let_def load_documents_empty_iff
        load_documents_stores)
qed

lemma example_fresh_index:
  "fst (initialize_rag_system example_env example_splitter False
          (example_world [example_txt, example_pdf])) = Inr (Some example_fresh_store)"
proof -
  let ?w = "example_world [example_txt, example_pdf]"
  let ?docs = "fst (load_documents (DOCUMENT_DIRECTORY example_env) ?w)"
  let ?w1 = "snd (load_documents (DOCUMENT_DIRECTORY example_env) ?w)"
  let ?chunks = "fst (split_documents example_splitter ?docs CHUNK_SIZE CHUNK_OVERLAP ?w1)"
  let ?w2 = "snd (split_documents example_splitter ?docs CHUNK_SIZE CHUNK_OVERLAP ?w1)"
  have chunks: "?chunks = collection example_fresh_store"
    by (simp add: load_documents_docs Let_def
        example_world_def example_env_def DOCUMENT_DIRECTORY_def path_join_def
        split_documents_chunks glob_def ends_with_def records_of_def add_metadata_def
        example_txt_def example_pdf_def example_splitter_def CHUNK_SIZE_def CHUNK_OVERLAP_def
        example_fresh_store_def)
  then have ne: "?chunks \<noteq> []" "?docs \<noteq> []"
    by (auto simp: example_fresh_store_def split_documents_chunks)
  have h: "False \<or> stores ?w2 (VECTOR_STORE_DIRECTORY example_env) = None"
    by (simp add: load_documents_stores split_documents_stores example_world_def)
  have c: "VECTOR_STORE_DIRECTORY example_env \<notin> open_clients ?w2"
    by (simp add: load_documents_clients split_documents_clients example_world_def)
  from create_vector_store_fresh(1) [OF h c, of ?chunks] ne chunks
  show ?thesis
    by (simp add: initialize_rag_system_unfold Let_def example_fresh_store_def
        VECTOR_STORE_DIRECTORY_def path_join_def example_env_def EMBEDDING_MODEL_def)
qed

subsection \<open>The language model and the chain\<close>

lemma generate_logs_request:
  "http_log (snd (generate post self messages stop w)) =
     http_log w @ [generate_request self messages stop]"
  by (simp add: generate_def Let_def split: sum.splits option.splits)

lemma create_chatbot_with_key:
  assumes "truthy (GROQ_API_KEY e)"
  shows "\<exists>c. create_chatbot e vs GROQ_MODEL = Inr c
             \<and> vectorstore (chain_retriever c) = vs
             \<and> search_kwargs_k (chain_retriever c) = 3
             \<and> chat_memory (chain_memory c) = []"
  using assms
  by (auto simp: create_chatbot_def GroqChatModel_def py_or_def truthy_def RETRIEVER_K_def
      split: option.splits)

lemma create_chatbot_without_key:
  assumes "\<not> truthy (GROQ_API_KEY e)"
  shows "create_chatbot e vs m =
     Inl (ValueError ''GROQ_API_KEY not found. Please set it in your .env file. Get a free key from https://console.groq.com/'')"
  using assms by (simp add: create_chatbot_def)

lemma chat_propagates:
  "invoke c \<lparr>question = q, chat_history = history\<rparr> w = (Inl ex, c', w') \<Longrightarrow>
   chat invoke c q history w = (Inl ex, c', w')"
  by (simp add: chat_def)

lemma lifespan_startup_initialized:
  "app_initialized (fst (lifespan_startup e sp app_state0 w)) \<longleftrightarrow>
     (\<exists>vs. fst (initialize_rag_system e sp False
                 (print ''Starting up... Attempting to load existing vector store.'' w))
             = Inr (Some vs))
     \<and> truthy (GROQ_API_KEY e)"
proof (cases "fst (initialize_rag_system e sp False
            (print ''Starting up... Attempting to load existing vector store.'' w))")
  case (Inl ex)
  then show ?thesis
    by (simp add: lifespan_startup_def Let_def split_beta app_state0_def)
next
  case (Inr r)
  show ?thesis
  proof (cases r)
    case None
    with Inr show ?thesis
      by (simp add: lifespan_startup_def Let_def split_beta app_state0_def)
  next
    case (Some vs)
    show ?thesis
    proof (cases "truthy (GROQ_API_KEY e)")
      case True
      from create_chatbot_with_key [OF True, of vs] obtain c where
        "create_chatbot e vs GROQ_MODEL = Inr c" by blast
      with Inr Some True show ?thesis
        by (simp add: lifespan_startup_def Let_def split_beta app_state0_def)
    next
      case False
      with Inr Some show ?thesis
        by (simp add: lifespan_startup_def Let_def split_beta app_state0_def
            create_chatbot_without_key)
    qed
  qed
qed

section \<open>The claims\<close>

subsection \<open>Claim C2\<close>




subsection \<open>Claim C3\<close>

text \<open>
  C3. When the response to the request has a status other than 200 (every non-success
  status is one), \<open>_generate\<close> raises a \<open>ValueError\<close> whose message holds the status
  code and the body of the response as they are: the code and the body read back from
  the message are those of the response. Exactly one request has been sent, the one
  built from the messages, and it carries a timeout of 60 seconds.
\<close>

theorem generate_non_200_fails:
  assumes "post (generate_request self messages stop) = Inr response"
    and "status_code response \<noteq> 200"
  shows "generate post self messages stop w =
           (Inl (ValueError (''Groq API error: '' @ str_int (status_code response) @ '' - ''
                              @ resp_text response)),
            w\<lparr>http_log := http_log w @ [generate_request self messages stop]\<rparr>)
       \<and> (\<forall>c b. ''Groq API error: '' @ str_int (status_code response) @ '' - '' @ resp_text response
                  = ''Groq API error: '' @ str_int c @ '' - '' @ b
                \<longrightarrow> c = status_code response \<and> b = resp_text response)
       \<and> timeout (generate_request self messages stop) = 60"
proof -
  have "generate post self messages stop w =
           (Inl (ValueError (''Groq API error: '' @ str_int (status_code response) @ '' - ''
                              @ resp_text response)),
            w\<lparr>http_log := http_log w @ [generate_request self messages stop]\<rparr>)"
    using assms by (simp add: generate_def Let_def)
  moreover have "timeout (generate_request self messages stop) = 60"
    by (simp add: generate_request_def)
  moreover have "c = status_code response \<and> b = resp_text response"
    if "''Groq API error: '' @ str_int (status_code response) @ '' - '' @ resp_text response
                  = ''Groq API error: '' @ str_int c @ '' - '' @ b" for c b
    using groq_error_message_inj [OF that] by simp
  ultimately show ?thesis by blast
qed

text \<open>
  An endpoint that answers 500: the error reads
  \<open>Groq API error: 500 - Internal Server Error\<close> and one request was sent.
\<close>

theorem generate_non_200_fails_witness:
  "example_post_500 (generate_request example_model [HumanMessage ''What is X?''] None) =
     Inr \<lparr>status_code = 500, resp_text = ''Internal Server Error'', json_body = None\<rparr>
   \<and> (500::int) \<noteq> 200
   \<and> fst (generate example_post_500 example_model [HumanMessage ''What is X?''] None (example_world []))
       = Inl (ValueError ''Groq API error: 500 - Internal Server Error'')
   \<and> http_log (snd (generate example_post_500 example_model [HumanMessage ''What is X?''] None
                      (example_world [])))
       = [generate_request example_model [HumanMessage ''What is X?''] None]"
proof -
  have h1: "example_post_500 (generate_request example_model [HumanMessage ''What is X?''] None) =
     Inr \<lparr>status_code = 500, resp_text = ''Internal Server Error'', json_body = None\<rparr>"
    by (simp add: example_post_500_def)
  have h2: "status_code \<lparr>status_code = 500, resp_text = ''Internal Server Error'', json_body = None\<rparr> \<noteq> 200"
    by simp
  have s: "str_int 500 = ''500''"
    by (simp add: str_int_def str_nat.simps digit_char_def)
  from generate_non_200_fails
    [of example_post_500 example_model "[HumanMessage ''What is X?'']" None
        "\<lparr>status_code = 500, resp_text = ''Internal Server Error'', json_body = None\<rparr>"
        "example_world []"] h1 h2 s
  show ?thesis by (simp add: example_world_def)
qed

subsection \<open>Claim C4\<close>

text \<open>
  C4, as the code has it. The request \<open>_generate\<close> sends holds one formatted message per
  message, in order, and formatting cannot fail. A message that is neither a
  \<open>HumanMessage\<close>, an \<open>AIMessage\<close> nor a \<open>ChatMessage\<close> (a system, function or tool
  message) is sent with role \<open>user\<close>. A \<open>ChatMessage\<close> is sent with the role it carries,
  whatever that role is.
\<close>

theorem generate_message_roles:
  "http_log (snd (generate post self messages stop w)) =
     http_log w @ [generate_request self messages stop]
   \<and> json_messages (generate_request self messages stop) = map format_message messages
   \<and> (i < length messages \<and> message_class (messages ! i) \<notin> {''human'', ''ai'', ''chat''} \<longrightarrow>
        role (json_messages (generate_request self messages stop) ! i) = ''user'')
   \<and> (i < length messages \<and> messages ! i = ChatMessage r c \<longrightarrow>
        role (json_messages (generate_request self messages stop) ! i) = r)"
proof -
  have m: "json_messages (generate_request self messages stop) = map format_message messages"
    by (simp add: generate_request_def)
  have other: "role (format_message msg) = ''user''"
    if "message_class msg \<notin> {''human'', ''ai'', ''chat''}" for msg
    using that by (cases msg) simp_all
  from m other generate_logs_request show ?thesis by simp
qed

text \<open>
  C4 as it is written fails on a \<open>ChatMessage\<close>: its role \<open>moderator\<close> is neither
  \<open>user\<close> nor \<open>assistant\<close>, and it is sent as \<open>moderator\<close>, not as \<open>user\<close>.
\<close>

theorem generate_chat_message_role_counterexample:
  "''moderator'' \<noteq> ''user'' \<and> ''moderator'' \<noteq> ''assistant''
   \<and> json_messages (generate_request example_model [ChatMessage ''moderator'' ''hi''] None) =
       [\<lparr>role = ''moderator'', content = ''hi''\<rparr>]
   \<and> role (hd (json_messages (last (http_log (snd (generate example_post_500 example_model
              [ChatMessage ''moderator'' ''hi''] None (example_world []))))))) \<noteq> ''user''"
  by (simp add: generate_logs_request generate_request_def)

text \<open>
  A system message is sent as \<open>user\<close>; the chat message before it keeps its role.
\<close>

theorem generate_message_roles_witness:
  "(1::nat) < length [ChatMessage ''moderator'' ''hi'', SystemMessage ''be brief'']
   \<and> message_class ([ChatMessage ''moderator'' ''hi'', SystemMessage ''be brief''] ! 1)
        \<notin> {''human'', ''ai'', ''chat''}
   \<and> role (json_messages (generate_request example_model
              [ChatMessage ''moderator'' ''hi'', SystemMessage ''be brief''] None) ! 1) = ''user''
   \<and> role (json_messages (generate_request example_model
              [ChatMessage ''moderator'' ''hi'', SystemMessage ''be brief''] None) ! 0) = ''moderator''"
proof -
  have h1: "(1::nat) < length [ChatMessage ''moderator'' ''hi'', SystemMessage ''be brief'']
    \<and> message_class ([ChatMessage ''moderator'' ''hi'', SystemMessage ''be brief''] ! 1)
        \<notin> {''human'', ''ai'', ''chat''}"
    by simp
  have h0: "(0::nat) < length [ChatMessage ''moderator'' ''hi'', SystemMessage ''be brief'']
    \<and> [ChatMessage ''moderator'' ''hi'', SystemMessage ''be brief''] ! 0 = ChatMessage ''moderator'' ''hi''"
    by simp
  from generate_message_roles
    [of example_post_500 example_model "[ChatMessage ''moderator'' ''hi'', SystemMessage ''be brief'']"
        None "example_world []" 1 "''moderator''" "''hi''"] h1
  have a: "role (json_messages (generate_request example_model
              [ChatMessage ''moderator'' ''hi'', SystemMessage ''be brief''] None) ! 1) = ''user''"
    by blast
  from generate_message_roles
    [of example_post_500 example_model "[ChatMessage ''moderator'' ''hi'', SystemMessage ''be brief'']"
        None "example_world []" 0 "''moderator''" "''hi''"] h0
  have b: "role (json_messages (generate_request example_model
              [ChatMessage ''moderator'' ''hi'', SystemMessage ''be brief''] None) ! 0) = ''moderator''"
    by blast
  from h1 a b show ?thesis by blast
qed

subsection \<open>Claim C5\<close>

text \<open>
  C5, as the code has it. When the document directory has no loadable documents:
  POST /initialize with \<open>force_recreate\<close> answers with the HTTP error 500 whose detail
  says that the vector store could not be created and points at the documents folder,
  and leaves the application state and the persisted index as they were;
  without \<open>force_recreate\<close> and with an index persisted, \<open>initialize_rag_system\<close>
  returns that index, which stays as it was, and POST /initialize succeeds with a chain
  over that index provided \<open>GROQ_API_KEY\<close> is set.
\<close>

theorem initialize_system_without_documents:
  "(no_loadable_documents w (DOCUMENT_DIRECTORY e) \<longrightarrow>
      fst (initialize_system e split_text True s w) =
        Inl (HTTPException 500
              (''Initialization failed: Failed to create vector store. Check if documents exist in ''
               @ quote @ ''documents'' @ quote @ '' folder.''))
      \<and> fst (snd (initialize_system e split_text True s w)) = s
      \<and> stores (snd (snd (initialize_system e split_text True s w))) = stores w)
   \<and> (no_loadable_documents w (DOCUMENT_DIRECTORY e) \<and>
      stores w (VECTOR_STORE_DIRECTORY e) = Some es \<longrightarrow>
      fst (initialize_rag_system e split_text False w) =
        Inr (Some \<lparr>persist_directory = VECTOR_STORE_DIRECTORY e,
                   embedding_function = EMBEDDING_MODEL, collection = es\<rparr>)
      \<and> stores (snd (snd (initialize_system e split_text False s w))) = stores w)
   \<and> (no_loadable_documents w (DOCUMENT_DIRECTORY e) \<and>
      stores w (VECTOR_STORE_DIRECTORY e) = Some es \<and> truthy (GROQ_API_KEY e) \<longrightarrow>
      fst (initialize_system e split_text False s w) =
        Inr \<lparr>message = ''System initialized successfully'', success = True\<rparr>
      \<and> app_initialized (fst (snd (initialize_system e split_text False s w)))
      \<and> app_vector_store (fst (snd (initialize_system e split_text False s w))) =
          Some \<lparr>persist_directory = VECTOR_STORE_DIRECTORY e,
                embedding_function = EMBEDDING_MODEL, collection = es\<rparr>
      \<and> (\<exists>c. app_chain (fst (snd (initialize_system e split_text False s w))) = Some c
             \<and> collection (vectorstore (chain_retriever c)) = es))"
proof -
  let ?old = "\<lparr>persist_directory = VECTOR_STORE_DIRECTORY e,
               embedding_function = EMBEDDING_MODEL, collection = es\<rparr>"
  have a: "fst (initialize_system e split_text True s w) =
        Inl (HTTPException 500
              (''Initialization failed: Failed to create vector store. Check if documents exist in ''
               @ quote @ ''documents'' @ quote @ '' folder.''))
      \<and> fst (snd (initialize_system e split_text True s w)) = s
      \<and> stores (snd (snd (initialize_system e split_text True s w))) = stores w"
    if "no_loadable_documents w (DOCUMENT_DIRECTORY e)"
    using initialize_rag_system_no_documents_force [OF that, of split_text]
    by (simp add: initialize_system_def split_beta Let_def)
  have b: "fst (initialize_rag_system e split_text False w) = Inr (Some ?old)
      \<and> stores (snd (snd (initialize_system e split_text False s w))) = stores w"
    if "no_loadable_documents w (DOCUMENT_DIRECTORY e)"
       "stores w (VECTOR_STORE_DIRECTORY e) = Some es"
    using initialize_rag_system_no_documents_existing [OF that, of split_text]
    by (simp add: initialize_system_def split_beta Let_def split: sum.splits)
  have c: "fst (initialize_system e split_text False s w) =
        Inr \<lparr>message = ''System initialized successfully'', success = True\<rparr>
      \<and> app_initialized (fst (snd (initialize_system e split_text False s w)))
      \<and> app_vector_store (fst (snd (initialize_system e split_text False s w))) = Some ?old
      \<and> (\<exists>c. app_chain (fst (snd (initialize_system e split_text False s w))) = Some c
             \<and> collection (vectorstore (chain_retriever c)) = es)"
    if "no_loadable_documents w (DOCUMENT_DIRECTORY e)"
       "stores w (VECTOR_STORE_DIRECTORY e) = Some es" "truthy (GROQ_API_KEY e)"
  proof -
    from create_chatbot_with_key [OF that(3), of ?old] obtain c where
      "create_chatbot e ?old GROQ_MODEL = Inr c" "vectorstore (chain_retriever c) = ?old"
      by blast
    with initialize_rag_system_no_documents_existing(1) [OF that(1,2), of split_text]
    show ?thesis by (simp add: initialize_system_def split_beta Let_def)
  qed
  from a b c show ?thesis by blast
qed

text \<open>
  C5 as it is written promises success for every such request. Without \<open>GROQ_API_KEY\<close>
  the request fails although the old index is loaded: \<open>create_chatbot\<close> raises.
\<close>

theorem initialize_system_no_key_counterexample:
  "no_loadable_documents (example_indexed_world []) (DOCUMENT_DIRECTORY example_env_no_key)
   \<and> stores (example_indexed_world []) (VECTOR_STORE_DIRECTORY example_env_no_key) = Some [example_chunk]
   \<and> fst (initialize_system example_env_no_key example_splitter False app_state0
            (example_indexed_world [])) =
       Inl (HTTPException 500 ''Initialization failed: GROQ_API_KEY not found. Please set it in your .env file. Get a free key from https://console.groq.com/'')
   \<and> \<not> app_initialized (fst (snd (initialize_system example_env_no_key example_splitter False
            app_state0 (example_indexed_world []))))"
proof -
  have n: "no_loadable_documents (example_indexed_world []) (DOCUMENT_DIRECTORY example_env_no_key)"
    by (simp add: no_loadable_documents_def example_indexed_world_def DOCUMENT_DIRECTORY_def path_join_def
        example_env_no_key_def glob_def)
  have st: "stores (example_indexed_world []) (VECTOR_STORE_DIRECTORY example_env_no_key) = Some [example_chunk]"
    by (simp add: example_indexed_world_def VECTOR_STORE_DIRECTORY_def path_join_def example_env_no_key_def)
  have k: "\<not> truthy (GROQ_API_KEY example_env_no_key)"
    by (simp add: truthy_def example_env_no_key_def)
  from initialize_rag_system_no_documents_existing(1) [OF n st, of example_splitter]
    create_chatbot_without_key [OF k]
  have "fst (initialize_system example_env_no_key example_splitter False app_state0
            (example_indexed_world [])) =
       Inl (HTTPException 500 ''Initialization failed: GROQ_API_KEY not found. Please set it in your .env file. Get a free key from https://console.groq.com/'')"
    and "\<not> app_initialized (fst (snd (initialize_system example_env_no_key example_splitter False
            app_state0 (example_indexed_world []))))"
    by (simp_all add: initialize_system_def split_beta Let_def app_state0_def)
  with n st show ?thesis by blast
qed

text \<open>
  A directory whose only file is a corrupted PDF, beside an index persisted earlier.
\<close>

theorem initialize_system_without_documents_witness:
  "no_loadable_documents (example_indexed_world [example_bad_pdf]) (DOCUMENT_DIRECTORY example_env)
   \<and> stores (example_indexed_world [example_bad_pdf]) (VECTOR_STORE_DIRECTORY example_env) = Some [example_chunk]
   \<and> truthy (GROQ_API_KEY example_env)
   \<and> fst (initialize_system example_env example_splitter True app_state0
            (example_indexed_world [example_bad_pdf])) =
       Inl (HTTPException 500
              (''Initialization failed: Failed to create vector store. Check if documents exist in ''
               @ quote @ ''documents'' @ quote @ '' folder.''))
   \<and> fst (initialize_system example_env example_splitter False app_state0
            (example_indexed_world [example_bad_pdf])) =
       Inr \<lparr>message = ''System initialized successfully'', success = True\<rparr>
   \<and> app_vector_store (fst (snd (initialize_system example_env example_splitter False app_state0
            (example_indexed_world [example_bad_pdf])))) =
       Some \<lparr>persist_directory = VECTOR_STORE_DIRECTORY example_env,
             embedding_function = EMBEDDING_MODEL, collection = [example_chunk]\<rparr>"
proof -
  have n: "no_loadable_documents (example_indexed_world [example_bad_pdf]) (DOCUMENT_DIRECTORY example_env)"
    by (simp add: no_loadable_documents_def example_indexed_world_def DOCUMENT_DIRECTORY_def path_join_def
        example_env_def glob_def ends_with_def example_bad_pdf_def records_of_def)
  have st: "stores (example_indexed_world [example_bad_pdf]) (VECTOR_STORE_DIRECTORY example_env) = Some [example_chunk]"
    by (simp add: example_indexed_world_def VECTOR_STORE_DIRECTORY_def path_join_def example_env_def)
  have k: "truthy (GROQ_API_KEY example_env)"
    by (simp add: truthy_def example_env_def)
  from initialize_system_without_documents
    [of "example_indexed_world [example_bad_pdf]" example_env example_splitter app_state0
        "[example_chunk]"] n st k
  show ?thesis by blast
qed

subsection \<open>Claim C7\<close>

text \<open>
  C7. In a directory that exists, \<open>load_documents\<close> returns the records of every PDF file
  that loads followed by the records of every TXT file that loads, each stamped with its
  file name and type; a file whose loader raises contributes nothing and takes nothing
  away from the others: the records of every loadable file are in the result. For every
  file that failed, the line \<open>Error loading <name>: <exception>\<close> has been printed.
  The world is changed in what was printed only. No exception leaves the function: the
  handler of each \<open>try\<close> turns it into that printed line.
\<close>

theorem load_documents_skips_failed_files:
  assumes "doc_dirs w d = Some entries"
  shows "fst (load_documents d w) =
           concat (map (records_of ''pdf'') (glob ''.pdf'' entries)) @
           concat (map (records_of ''txt'') (glob ''.txt'' entries))
       \<and> (\<forall>f \<in> set entries. \<forall>ds. ends_with ''.pdf'' (file_name f) \<and> loader_load f = Inr ds \<longrightarrow>
             set (map (add_metadata (file_name f) ''pdf'') ds) \<subseteq> set (fst (load_documents d w)))
       \<and> (\<forall>f \<in> set entries. \<forall>ds. ends_with ''.txt'' (file_name f) \<and> loader_load f = Inr ds \<longrightarrow>
             set (map (add_metadata (file_name f) ''txt'') ds) \<subseteq> set (fst (load_documents d w)))
       \<and> (\<forall>f \<in> set entries. \<forall>e.
             (ends_with ''.pdf'' (file_name f) \<or> ends_with ''.txt'' (file_name f)) \<and>
             loader_load f = Inl e \<longrightarrow>
             (''Error loading '' @ file_name f @ '': '' @ str_exn e)
               \<in> set (stdout (snd (load_documents d w))))
       \<and> snd (load_documents d w) = w\<lparr>stdout := stdout (snd (load_documents d w))\<rparr>"
proof -
  have docs: "fst (load_documents d w) =
           concat (map (records_of ''pdf'') (glob ''.pdf'' entries)) @
           concat (map (records_of ''txt'') (glob ''.txt'' entries))"
    using assms by (simp add: load_documents_docs)
  have in_pdf: "set (map (add_metadata (file_name f) ''pdf'') ds) \<subseteq> set (fst (load_documents d w))"
    if "f \<in> set entries" "ends_with ''.pdf'' (file_name f)" "loader_load f = Inr ds" for f ds
  proof -
    from that have "f \<in> set (glob ''.pdf'' entries)" by (simp add: glob_def)
    moreover from that have "records_of ''pdf'' f = map (add_metadata (file_name f) ''pdf'') ds"
      by (simp add: records_of_def)
    ultimately show ?thesis unfolding docs by force
  qed
  have in_txt: "set (map (add_metadata (file_name f) ''txt'') ds) \<subseteq> set (fst (load_documents d w))"
    if "f \<in> set entries" "ends_with ''.txt'' (file_name f)" "loader_load f = Inr ds" for f ds
  proof -
    from that have "f \<in> set (glob ''.txt'' entries)" by (simp add: glob_def)
    moreover from that have "records_of ''txt'' f = map (add_metadata (file_name f) ''txt'') ds"
      by (simp add: records_of_def)
    ultimately show ?thesis unfolding docs by force
  qed
  have logs: "(''Error loading '' @ file_name f @ '': '' @ str_exn e)
               \<in> set (stdout (snd (load_documents d w)))"
    if "f \<in> set entries" "ends_with ''.pdf'' (file_name f) \<or> ends_with ''.txt'' (file_name f)"
       "loader_load f = Inl e" for f e
    using that load_documents_logs_pdf [OF assms] load_documents_logs_txt [OF assms] by blast
  from docs in_pdf in_txt logs load_documents_world [OF assms] show ?thesis by blast
qed

text \<open>
  A valid TXT file, a corrupted PDF file and a valid PDF file: the result holds the records
  of the two valid files, and the failure of the corrupted one is in the log.
\<close>

theorem load_documents_skips_failed_files_witness:
  "doc_dirs (example_world [example_txt, example_bad_pdf, example_pdf]) ''/app/documents'' =
     Some [example_txt, example_bad_pdf, example_pdf]
   \<and> fst (load_documents ''/app/documents'' (example_world [example_txt, example_bad_pdf, example_pdf])) =
       [\<lparr>page_content = ''page one'',
         metadata = [(''source'', MStr ''a.pdf''), (''page'', MInt 0), (''type'', MStr ''pdf'')]\<rparr>,
        \<lparr>page_content = ''page two'',
         metadata = [(''source'', MStr ''a.pdf''), (''page'', MInt 1), (''type'', MStr ''pdf'')]\<rparr>,
        \<lparr>page_content = ''hello world'',
         metadata = [(''source'', MStr ''notes.txt''), (''type'', MStr ''txt'')]\<rparr>]
   \<and> ''Error loading broken.pdf: EOF marker not found''
       \<in> set (stdout (snd (load_documents ''/app/documents''
                               (example_world [example_txt, example_bad_pdf, example_pdf]))))
   \<and> stores (snd (load_documents ''/app/documents''
                    (example_world [example_txt, example_bad_pdf, example_pdf]))) = Map.empty"
proof -
  let ?es = "[example_txt, example_bad_pdf, example_pdf]"
  let ?w = "example_world ?es"
  have h: "doc_dirs ?w ''/app/documents'' = Some ?es"
    by (simp add: example_world_def)
  have bad: "example_bad_pdf \<in> set ?es" by simp
  from load_documents_skips_failed_files [OF h]
  have docs: "fst (load_documents ''/app/documents'' ?w) =
           concat (map (records_of ''pdf'') (glob ''.pdf'' ?es)) @
           concat (map (records_of ''txt'') (glob ''.txt'' ?es))"
    and logs: "\<forall>f \<in> set ?es. \<forall>e.
             (ends_with ''.pdf'' (file_name f) \<or> ends_with ''.txt'' (file_name f)) \<and>
             loader_load f = Inl e \<longrightarrow>
             (''Error loading '' @ file_name f @ '': '' @ str_exn e)
               \<in> set (stdout (snd (load_documents ''/app/documents'' ?w)))"
    and same: "snd (load_documents ''/app/documents'' ?w) =
             ?w\<lparr>stdout := stdout (snd (load_documents ''/app/documents'' ?w))\<rparr>"
    by blast+
  have "fst (load_documents ''/app/documents'' ?w) =
       [\<lparr>page_content = ''page one'',
         metadata = [(''source'', MStr ''a.pdf''), (''page'', MInt 0), (''type'', MStr ''pdf'')]\<rparr>,
        \<lparr>page_content = ''page two'',
         metadata = [(''source'', MStr ''a.pdf''), (''page'', MInt 1), (''type'', MStr ''pdf'')]\<rparr>,
        \<lparr>page_content = ''hello world'',
         metadata = [(''source'', MStr ''notes.txt''), (''type'', MStr ''txt'')]\<rparr>]"
    unfolding docs
    by (simp add: glob_def ends_with_def records_of_def add_metadata_def example_txt_def
        example_bad_pdf_def example_pdf_def)
  moreover have "''Error loading broken.pdf: EOF marker not found''
       \<in> set (stdout (snd (load_documents ''/app/documents'' ?w)))"
    using logs [rule_format, OF bad, of "LibraryError ''EOF marker not found''"]
    by (simp add: ends_with_def example_bad_pdf_def)
  moreover have "stores (snd (load_documents ''/app/documents'' ?w)) = Map.empty"
  proof -
    have "stores (snd (load_documents ''/app/documents'' ?w)) =
          stores (?w\<lparr>stdout := stdout (snd (load_documents ''/app/documents'' ?w))\<rparr>)"
      using same by simp
    then show ?thesis by (simp add: example_world_def)
  qed
  ultimately show ?thesis using h by blast
qed

subsection \<open>Claim C8\<close>

text \<open>
  C8. The application starts uninitialized, and a failed POST /initialize leaves it so.
  While it is uninitialized, POST /chat answers with the HTTP error 400
  \<open>System not initialized. Please call /initialize first.\<close> and changes neither the
  state nor the world: the chain is not invoked, so no request reaches the language
  model. The status 400 is kept for this case: once the application is initialized,
  POST /chat never answers 400.
\<close>

theorem api_chat_not_initialized:
  "uninitialized app_state0
   \<and> (uninitialized s \<longrightarrow>
        api_chat invoke request s w =
          (Inl (HTTPException 400 ''System not initialized. Please call /initialize first.''), s, w))
   \<and> (uninitialized s \<and> fst (initialize_system e split_text force_recreate s w) = Inl ex \<longrightarrow>
        uninitialized (fst (snd (initialize_system e split_text force_recreate s w))))
   \<and> (\<not> uninitialized s \<longrightarrow>
        (\<forall>detail. fst (api_chat invoke request s w) \<noteq> Inl (HTTPException 400 detail)))"
proof -
  have a: "uninitialized app_state0"
    by (simp add: uninitialized_def app_state0_def)
  have b: "api_chat invoke request s w =
          (Inl (HTTPException 400 ''System not initialized. Please call /initialize first.''), s, w)"
    if "uninitialized s"
    using that by (auto simp: uninitialized_def api_chat_def split: bool.splits option.splits)
  have c: "uninitialized (fst (snd (initialize_system e split_text force_recreate s w)))"
    if "uninitialized s" "fst (initialize_system e split_text force_recreate s w) = Inl ex"
    using that
    by (auto simp: uninitialized_def initialize_system_def Let_def split_beta
        split: option.splits sum.splits)
  have d: "fst (api_chat invoke request s w) \<noteq> Inl (HTTPException 400 detail)"
    if "\<not> uninitialized s" for detail
    using that
    by (auto simp: uninitialized_def api_chat_def Let_def
        split: bool.splits option.splits sum.splits prod.splits)
  from a b c d show ?thesis by blast
qed

text \<open>
  A question asked at start-up, with a chain whose every call would reach the network;
  a failed initialization; and the same question once the application is initialized.
\<close>

theorem api_chat_not_initialized_witness:
  "uninitialized app_state0
   \<and> api_chat example_invoke \<lparr>req_question = ''What is X?'', req_chat_history = None\<rparr>
        app_state0 (example_world []) =
       (Inl (HTTPException 400 ''System not initialized. Please call /initialize first.''),
        app_state0, example_world [])
   \<and> http_log (example_world []) = []
   \<and> fst (initialize_system example_env example_splitter True app_state0 (example_world [])) =
       Inl (HTTPException 500
              (''Initialization failed: Failed to create vector store. Check if documents exist in ''
               @ quote @ ''documents'' @ quote @ '' folder.''))
   \<and> uninitialized (fst (snd (initialize_system example_env example_splitter True app_state0
                                (example_world []))))
   \<and> \<not> uninitialized example_initialized
   \<and> fst (api_chat example_invoke \<lparr>req_question = ''What is X?'', req_chat_history = None\<rparr>
            example_initialized (example_world [])) =
       Inr \<lparr>resp_answer = ''an answer'', resp_sources = []\<rparr>
   \<and> fst (api_chat example_invoke \<lparr>req_question = ''What is X?'', req_chat_history = None\<rparr>
            example_initialized (example_world [])) \<noteq>
       Inl (HTTPException 400 ''System not initialized. Please call /initialize first.'')"
proof -
  let ?req = "\<lparr>req_question = ''What is X?'', req_chat_history = None\<rparr>"
  let ?fail = "Inl (HTTPException 500
              (''Initialization failed: Failed to create vector store. Check if documents exist in ''
               @ quote @ ''documents'' @ quote @ '' folder.'')) :: exn + init_response"
  have n: "no_loadable_documents (example_world []) (DOCUMENT_DIRECTORY example_env)"
    by (simp add: no_loadable_documents_def example_world_def DOCUMENT_DIRECTORY_def path_join_def
        example_env_def glob_def)
  have f: "fst (initialize_system example_env example_splitter True app_state0 (example_world [])) = ?fail"
    using initialize_rag_system_no_documents_force(1) [OF n, of example_splitter]
    by (simp add: initialize_system_def split_beta Let_def)
  have i: "\<not> uninitialized example_initialized"
    by (simp add: uninitialized_def example_initialized_def)
  have r: "fst (api_chat example_invoke ?req example_initialized (example_world [])) =
       Inr \<lparr>resp_answer = ''an answer'', resp_sources = []\<rparr>"
    by (simp add: api_chat_def example_initialized_def example_invoke_def Let_def)
  from api_chat_not_initialized
    [of app_state0 example_invoke ?req "example_world []" example_env example_splitter True
        "HTTPException 500
              (''Initialization failed: Failed to create vector store. Check if documents exist in ''
               @ quote @ ''documents'' @ quote @ '' folder.'')"] f
  have a: "uninitialized app_state0"
    and b: "api_chat example_invoke ?req app_state0 (example_world []) =
       (Inl (HTTPException 400 ''System not initialized. Please call /initialize first.''),
        app_state0, example_world [])"
    and c: "uninitialized (fst (snd (initialize_system example_env example_splitter True app_state0
                                (example_world []))))"
    by blast+
  from api_chat_not_initialized
    [of example_initialized example_invoke ?req "example_world []" example_env example_splitter True
        "ValueError []"] i
  have d: "fst (api_chat example_invoke ?req example_initialized (example_world [])) \<noteq>
       Inl (HTTPException 400 ''System not initialized. Please call /initialize first.'')"
    by blast
  have l: "http_log (example_world []) = []" by (simp add: example_world_def)
  from a b l f c i r d show ?thesis by blast
qed

subsection \<open>Claim C9\<close>

text \<open>
  C9. With an index persisted at the path, two calls of \<open>create_vector_store\<close> without
  \<open>force_recreate\<close> (with any chunks) return the same store, the one holding the
  persisted entries, and the persisted entries are the same after each call: nothing is
  added.
\<close>

theorem create_vector_store_twice:
  assumes "stores w pd = Some es"
  shows "fst (create_vector_store chunks1 pd False w) =
           Inr (Some \<lparr>persist_directory = pd, embedding_function = EMBEDDING_MODEL,
                      collection = es\<rparr>)
       \<and> fst (create_vector_store chunks2 pd False (snd (create_vector_store chunks1 pd False w))) =
           fst (create_vector_store chunks1 pd False w)
       \<and> stores (snd (create_vector_store chunks1 pd False w)) = stores w
       \<and> stores (snd (create_vector_store chunks2 pd False (snd (create_vector_store chunks1 pd False w))))
           = stores w"
proof -
  let ?w1 = "snd (create_vector_store chunks1 pd False w)"
  let ?old = "\<lparr>persist_directory = pd, embedding_function = EMBEDDING_MODEL, collection = es\<rparr>"
  have first: "fst (create_vector_store chunks1 pd False w) = Inr (Some ?old)"
    and s1: "stores ?w1 = stores w"
    by (rule create_vector_store_existing [OF assms])+
  from s1 assms have "stores ?w1 pd = Some es" by simp
  from create_vector_store_existing(1,2) [OF this, of chunks2]
  have "fst (create_vector_store chunks2 pd False ?w1) = Inr (Some ?old)"
    and "stores (snd (create_vector_store chunks2 pd False ?w1)) = stores ?w1"
    by simp_all
  with first s1 show ?thesis by simp
qed


theorem create_vector_store_twice_witness:
  "stores (example_indexed_world []) ''/app/vector_store'' = Some [example_chunk]
   \<and> fst (create_vector_store [example_txt_record] ''/app/vector_store'' False
           (snd (create_vector_store [example_txt_record] ''/app/vector_store'' False (example_indexed_world []))))
       = Inr (Some \<lparr>persist_directory = ''/app/vector_store'', embedding_function = EMBEDDING_MODEL,
                    collection = [example_chunk]\<rparr>)
   \<and> stores (snd (create_vector_store [example_txt_record] ''/app/vector_store'' False
           (snd (create_vector_store [example_txt_record] ''/app/vector_store'' False (example_indexed_world [])))))
        ''/app/vector_store'' = Some [example_chunk]"
proof -
  have h: "stores (example_indexed_world []) ''/app/vector_store'' = Some [example_chunk]"
    by (simp add: example_indexed_world_def)
  from create_vector_store_twice [OF h, of "[example_txt_record]" "[example_txt_record]"] h
  show ?thesis by simp
qed


subsection \<open>Claim C10\<close>

text \<open>
  C10. Whatever the directory holds and in whatever order it lists its files, the sequence
  \<open>load_documents\<close> returns is a run of records of type pdf followed by a run of records
  of type txt. The chunks cut from it keep that order, and so does the collection of an
  index that \<open>initialize_rag_system\<close> builds fresh (with \<open>force_recreate\<close>, or when
  no index is persisted yet).
\<close>

theorem load_documents_pdf_before_txt:
  "pdf_first (fst (load_documents d w))
   \<and> pdf_first (fst (split_documents split_text (fst (load_documents d w)) chunk_size chunk_overlap w'))
   \<and> ((force_recreate \<or> stores w (VECTOR_STORE_DIRECTORY e) = None) \<and>
        fst (initialize_rag_system e split_text force_recreate w) = Inr (Some vs)
        \<longrightarrow> pdf_first (collection vs))"
proof -
  have a: "pdf_first (fst (load_documents d w))" for d
    by (rule pdf_first_load_documents)
  have b: "pdf_first (fst (split_documents split_text (fst (load_documents d w)) cs co w'))" for d cs co w'
    by (rule pdf_first_split_documents [OF a])
  have c: "pdf_first (collection vs)"
    if "force_recreate \<or> stores w (VECTOR_STORE_DIRECTORY e) = None"
      "fst (initialize_rag_system e split_text force_recreate w) = Inr (Some vs)"
    using initialize_rag_system_fresh_collection [OF that, of w] b by simp
  from a b c show ?thesis by blast
qed

text \<open>
  A directory that lists its TXT file before its PDF file: the fresh index holds the two
  pages of the PDF first.
\<close>

theorem load_documents_pdf_before_txt_witness:
  "stores (example_world [example_txt, example_pdf]) (VECTOR_STORE_DIRECTORY example_env) = None
   \<and> fst (initialize_rag_system example_env example_splitter False
            (example_world [example_txt, example_pdf])) = Inr (Some example_fresh_store)
   \<and> pdf_first (collection example_fresh_store)
   \<and> pdf_first (fst (load_documents ''/app/documents'' (example_world [example_txt, example_pdf])))"
proof -
  have h: "stores (example_world [example_txt, example_pdf]) (VECTOR_STORE_DIRECTORY example_env) = None"
    by (simp add: example_world_def)
  from load_documents_pdf_before_txt
    [of "''/app/documents''" "example_world [example_txt, example_pdf]" example_splitter
        CHUNK_SIZE CHUNK_OVERLAP "example_world []" False example_env example_fresh_store]
    h example_fresh_index
  show ?thesis by simp
qed

end
